theory Spec2Isabelle
  imports Main "HOL-Library.Signed_Division"
begin

section \<open>Shared C++ library behaviour\<close>

text \<open>
  Both programs signal failure by throwing C++ exceptions. The constructors below are
  the error kinds of the specification, followed by the exceptions the standard library
  itself throws (\<^verbatim>\<open>std::stoi\<close>, \<^verbatim>\<open>std::string::substr\<close>,
  \<^verbatim>\<open>std::vector\<close>'s constructor). A string argument is the message passed
  at the throw site; the interpreter's \<^verbatim>\<open>error()\<close> puts \<^verbatim>\<open>Error: \<close> before
  its message. The one message that ends with a quotation mark, \<^verbatim>\<open>Expected ')'\<close>,
  has that mark appended as \<open>CHR 0x27\<close>.
\<close>

datatype error =
    SyntaxError string
  | UndefinedSymbol string
  | OutOfBounds
  | ArithmeticError string
  | LinkError string
  | StackUnderflow
  | OutOfMemory
  | OutOfRange
  | UnknownInstruction string
  | StoiInvalidArgument
  | StoiOutOfRange
  | SubstrOutOfRange
  | VectorLengthError

text \<open>
  Operations for which C++ defines no behaviour at all. No exception is thrown, so no
  handler of either program sees them.
\<close>

datatype undefined_behaviour =
    RegisterOutOfBounds int
  | HeapOutOfBounds int
  | StringOutOfBounds
  | DivisionByZero
  | SignedOverflow

definition INT_MIN :: int where "INT_MIN = - 2147483648"
definition INT_MAX :: int where "INT_MAX = 2147483647"

definition in_int_range :: "int \<Rightarrow> bool" where
  "in_int_range v = (INT_MIN \<le> v \<and> v \<le> INT_MAX)"

text \<open>Character classes of \<^verbatim>\<open><cctype>\<close> in the C locale.\<close>

definition isspace :: "char \<Rightarrow> bool" where
  "isspace c = (let k = (of_char c :: nat) in k = 32 \<or> (9 \<le> k \<and> k \<le> 13))"

definition isdigit :: "char \<Rightarrow> bool" where
  "isdigit c = (let k = (of_char c :: nat) in 48 \<le> k \<and> k \<le> 57)"

definition isalpha :: "char \<Rightarrow> bool" where
  "isalpha c = (let k = (of_char c :: nat) in (65 \<le> k \<and> k \<le> 90) \<or> (97 \<le> k \<and> k \<le> 122))"

definition isalnum :: "char \<Rightarrow> bool" where
  "isalnum c = (isalpha c \<or> isdigit c)"

text \<open>
  \<^verbatim>\<open>c - '0'\<close>: the character code minus 48, as an \<^verbatim>\<open>int\<close>. Codes from 128
  on are negative where \<^verbatim>\<open>char\<close> is signed; they are outside \<open>0..5\<close> and
  \<open>0..9\<close> either way.
\<close>

definition minus_zero_char :: "char \<Rightarrow> int" where
  "minus_zero_char c = int (of_char c) - 48"

text \<open>
  \<^verbatim>\<open>s[i]\<close> on a \<^verbatim>\<open>std::string\<close>: the character for \<open>i < size\<close>, the
  terminating null for \<open>i = size\<close>, undefined beyond.
\<close>

definition str_at :: "string \<Rightarrow> nat \<Rightarrow> char option" where
  "str_at s i = (if i < length s then Some (s ! i) else if i = length s then Some (CHR 0x00) else None)"

text \<open>\<^verbatim>\<open>s.substr(p)\<close> throws \<^verbatim>\<open>std::out_of_range\<close> when \<open>p > size\<close>.\<close>

definition substr_from :: "string \<Rightarrow> nat \<Rightarrow> error + string" where
  "substr_from s p = (if p \<le> length s then Inr (drop p s) else Inl SubstrOutOfRange)"

text \<open>
  \<^verbatim>\<open>std::stoi\<close>: skips leading white space, reads an optional sign and then the
  longest run of decimal digits. No digit: \<^verbatim>\<open>std::invalid_argument\<close>. A value
  outside \<^verbatim>\<open>int\<close>: \<^verbatim>\<open>std::out_of_range\<close>. Trailing text is ignored.
\<close>

definition digits_value :: "string \<Rightarrow> int" where
  "digits_value ds = foldl (\<lambda>acc c. 10 * acc + minus_zero_char c) 0 ds"

definition stoi_unsigned :: "bool \<Rightarrow> string \<Rightarrow> error + int" where
  "stoi_unsigned negative s =
     (let ds = takeWhile isdigit s in
      if ds = [] then Inl StoiInvalidArgument
      else let v = (if negative then - digits_value ds else digits_value ds) in
        if in_int_range v then Inr v else Inl StoiOutOfRange)"

definition stoi :: "string \<Rightarrow> error + int" where
  "stoi s =
     (case dropWhile isspace s of
        [] \<Rightarrow> Inl StoiInvalidArgument
      | c # cs \<Rightarrow>
          if c = CHR ''-'' then stoi_unsigned True cs
          else if c = CHR ''+'' then stoi_unsigned False cs
          else stoi_unsigned False (c # cs))"

section \<open>The bytecode virtual machine\<close>

text \<open>
  The fields of \<^verbatim>\<open>class VirtualMachine\<close>. The register file has 6 slots and the
  heap 100; both are C arrays, so the accessors below carry the bounds. \<open>cout\<close> holds
  the (register, value) pairs printed by \<^verbatim>\<open>PRINT\<close> and \<open>cerr\<close> the exceptions
  reported by the run loop.
\<close>

record vm =
  registers :: "nat \<Rightarrow> int"
  memory :: "nat \<Rightarrow> int"
  stackPointer :: int
  program :: "string list"
  pc :: int
  running :: bool
  callStack :: "int list"
  labels :: "string \<rightharpoonup> int"
  cout :: "(int \<times> int) list"
  cerr :: "error list"

datatype vm_outcome =
    VmOk vm
  | VmThrow error vm
  | VmUndefined undefined_behaviour

definition reg_ok :: "int \<Rightarrow> bool" where
  "reg_ok r = (0 \<le> r \<and> r < 6)"

definition heap_ok :: "int \<Rightarrow> bool" where
  "heap_ok a = (0 \<le> a \<and> a < 100)"

definition reg_write :: "int \<Rightarrow> int \<Rightarrow> vm \<Rightarrow> vm_outcome" where
  "reg_write r v st =
     (if reg_ok r then VmOk (st\<lparr>registers := (registers st)(nat r := v)\<rparr>)
      else VmUndefined (RegisterOutOfBounds r))"

text \<open>\<^verbatim>\<open>void mov(const std::string& instruction)\<close>\<close>

definition mov :: "string \<Rightarrow> vm \<Rightarrow> vm_outcome" where
  "mov instruction st =
     (case str_at instruction 4 of
        None \<Rightarrow> VmUndefined StringOutOfBounds
      | Some c \<Rightarrow>
          let reg = minus_zero_char c in
          (case substr_from instruction 6 of
             Inl e \<Rightarrow> VmThrow e st
           | Inr imm \<Rightarrow>
               (case stoi imm of
                  Inl e \<Rightarrow> VmThrow e st
                | Inr v \<Rightarrow> reg_write reg v st)))"

text \<open>
  \<^verbatim>\<open>std::pow\<close> on two \<^verbatim>\<open>int\<close>s converted back to \<^verbatim>\<open>int\<close>, taken as exact:
  a negative exponent gives the truncated reciprocal, and a result that does not fit an
  \<^verbatim>\<open>int\<close> (or the infinite \<open>0\<close> to a negative power) has no defined conversion.
\<close>

definition pow_int :: "int \<Rightarrow> int \<Rightarrow> int option" where
  "pow_int a b =
     (if 0 \<le> b then (if in_int_range (a ^ nat b) then Some (a ^ nat b) else None)
      else if a = 0 then None
      else if a = 1 then Some 1
      else if a = - 1 then Some (if even b then 1 else - 1)
      else Some 0)"

text \<open>\<^verbatim>\<open>void arithmetic(const std::string& instruction, const std::string& op)\<close>\<close>

definition arithmetic :: "string \<Rightarrow> string \<Rightarrow> vm \<Rightarrow> vm_outcome" where
  "arithmetic instruction op st =
     (case (str_at instruction 4, str_at instruction 6) of
        (Some c1, Some c2) \<Rightarrow>
          let reg1 = minus_zero_char c1; reg2 = minus_zero_char c2 in
          if op = ''ADD'' \<or> op = ''SUB'' \<or> op = ''MUL'' then
            (if \<not> reg_ok reg2 then VmUndefined (RegisterOutOfBounds reg2)
             else if \<not> reg_ok reg1 then VmUndefined (RegisterOutOfBounds reg1)
             else
               let a = registers st (nat reg1); b = registers st (nat reg2);
                   v = (if op = ''ADD'' then a + b else if op = ''SUB'' then a - b else a * b)
               in if in_int_range v then reg_write reg1 v st else VmUndefined SignedOverflow)
          else if op = ''DIV'' \<or> op = ''MOD'' then
            (if \<not> reg_ok reg2 then VmUndefined (RegisterOutOfBounds reg2)
             else if registers st (nat reg2) = 0 then
               VmThrow (ArithmeticError (if op = ''DIV'' then ''Error: Division by zero!''
                                         else ''Error: Modulus by zero!'')) st
             else if \<not> reg_ok reg1 then VmUndefined (RegisterOutOfBounds reg1)
             else
               let a = registers st (nat reg1); b = registers st (nat reg2) in
               if \<not> in_int_range (a sdiv b) then VmUndefined SignedOverflow
               else reg_write reg1 (if op = ''DIV'' then a sdiv b else a smod b) st)
          else if op = ''EXP'' then
            (if \<not> reg_ok reg1 then VmUndefined (RegisterOutOfBounds reg1)
             else if \<not> reg_ok reg2 then VmUndefined (RegisterOutOfBounds reg2)
             else
               (case pow_int (registers st (nat reg1)) (registers st (nat reg2)) of
                  None \<Rightarrow> VmUndefined SignedOverflow
                | Some v \<Rightarrow> reg_write reg1 v st))
          else VmOk st
      | _ \<Rightarrow> VmUndefined StringOutOfBounds)"

text \<open>\<^verbatim>\<open>void comparison(const std::string& instruction, const std::string& op)\<close>\<close>

definition comparison :: "string \<Rightarrow> string \<Rightarrow> vm \<Rightarrow> vm_outcome" where
  "comparison instruction op st =
     (case (str_at instruction 4, str_at instruction 6) of
        (Some c1, Some c2) \<Rightarrow>
          let reg1 = minus_zero_char c1; reg2 = minus_zero_char c2 in
          if op = ''GT'' \<or> op = ''LT'' \<or> op = ''EQ'' then
            (if \<not> reg_ok reg1 then VmUndefined (RegisterOutOfBounds reg1)
             else if \<not> reg_ok reg2 then VmUndefined (RegisterOutOfBounds reg2)
             else
               let a = registers st (nat reg1); b = registers st (nat reg2);
                   result = (if op = ''GT'' then a > b else if op = ''LT'' then a < b else a = b)
               in reg_write reg1 (if result then 1 else 0) st)
          else
            (if \<not> reg_ok reg1 then VmUndefined (RegisterOutOfBounds reg1)
             else reg_write reg1 0 st)
      | _ \<Rightarrow> VmUndefined StringOutOfBounds)"

text \<open>\<^verbatim>\<open>void print(const std::string& instruction)\<close>\<close>

definition print :: "string \<Rightarrow> vm \<Rightarrow> vm_outcome" where
  "print instruction st =
     (case str_at instruction 6 of
        None \<Rightarrow> VmUndefined StringOutOfBounds
      | Some c \<Rightarrow>
          let reg = minus_zero_char c in
          if reg_ok reg then VmOk (st\<lparr>cout := cout st @ [(reg, registers st (nat reg))]\<rparr>)
          else VmUndefined (RegisterOutOfBounds reg))"

text \<open>\<^verbatim>\<open>void jump(const std::string& instruction)\<close>\<close>

definition jump :: "string \<Rightarrow> vm \<Rightarrow> vm_outcome" where
  "jump instruction st =
     (case substr_from instruction 4 of
        Inl e \<Rightarrow> VmThrow e st
      | Inr label \<Rightarrow>
          (case labels st label of
             None \<Rightarrow> VmThrow (LinkError (''Error: Undefined label '' @ label)) st
           | Some target \<Rightarrow> VmOk (st\<lparr>pc := target\<rparr>)))"

text \<open>\<^verbatim>\<open>void jumpIfEqual(const std::string& instruction)\<close>\<close>

definition jumpIfEqual :: "string \<Rightarrow> vm \<Rightarrow> vm_outcome" where
  "jumpIfEqual instruction st =
     (case (str_at instruction 4, str_at instruction 6) of
        (Some c1, Some c2) \<Rightarrow>
          let reg1 = minus_zero_char c1; reg2 = minus_zero_char c2 in
          (case substr_from instruction 8 of
             Inl e \<Rightarrow> VmThrow e st
           | Inr label \<Rightarrow>
               if \<not> reg_ok reg1 then VmUndefined (RegisterOutOfBounds reg1)
               else if \<not> reg_ok reg2 then VmUndefined (RegisterOutOfBounds reg2)
               else if registers st (nat reg1) = registers st (nat reg2)
                 then jump (''JMP '' @ label) st
               else VmOk st)
      | _ \<Rightarrow> VmUndefined StringOutOfBounds)"

text \<open>\<^verbatim>\<open>void call(const std::string& instruction)\<close>: the push precedes the label check.\<close>

definition call :: "string \<Rightarrow> vm \<Rightarrow> vm_outcome" where
  "call instruction st =
     (case substr_from instruction 5 of
        Inl e \<Rightarrow> VmThrow e st
      | Inr label \<Rightarrow>
          let st1 = st\<lparr>callStack := pc st # callStack st\<rparr> in
          (case labels st1 label of
             None \<Rightarrow> VmThrow (LinkError (''Error: Undefined label '' @ label)) st1
           | Some target \<Rightarrow> VmOk (st1\<lparr>pc := target\<rparr>)))"

text \<open>\<^verbatim>\<open>void ret()\<close>\<close>

definition ret :: "vm \<Rightarrow> vm_outcome" where
  "ret st =
     (case callStack st of
        [] \<Rightarrow> VmThrow StackUnderflow st
      | saved # rest \<Rightarrow> VmOk (st\<lparr>pc := saved, callStack := rest\<rparr>))"

text \<open>\<^verbatim>\<open>void alloc(const std::string& instruction)\<close>\<close>

definition alloc :: "string \<Rightarrow> vm \<Rightarrow> vm_outcome" where
  "alloc instruction st =
     (case substr_from instruction 6 of
        Inl e \<Rightarrow> VmThrow e st
      | Inr txt \<Rightarrow>
          (case stoi txt of
             Inl e \<Rightarrow> VmThrow e st
           | Inr sz \<Rightarrow>
               if \<not> in_int_range (stackPointer st - sz) then VmUndefined SignedOverflow
               else if stackPointer st - sz < 0 then VmThrow OutOfMemory st
               else VmOk (st\<lparr>stackPointer := stackPointer st - sz\<rparr>)))"

text \<open>\<^verbatim>\<open>void store(const std::string& instruction)\<close>: no check of the address.\<close>

definition store :: "string \<Rightarrow> vm \<Rightarrow> vm_outcome" where
  "store instruction st =
     (case str_at instruction 6 of
        None \<Rightarrow> VmUndefined StringOutOfBounds
      | Some c \<Rightarrow>
          let reg = minus_zero_char c in
          (case substr_from instruction 8 of
             Inl e \<Rightarrow> VmThrow e st
           | Inr txt \<Rightarrow>
               (case stoi txt of
                  Inl e \<Rightarrow> VmThrow e st
                | Inr addr \<Rightarrow>
                    if \<not> reg_ok reg then VmUndefined (RegisterOutOfBounds reg)
                    else if \<not> heap_ok addr then VmUndefined (HeapOutOfBounds addr)
                    else VmOk (st\<lparr>memory := (memory st)(nat addr := registers st (nat reg))\<rparr>))))"

text \<open>\<^verbatim>\<open>void loadFromHeap(const std::string& instruction)\<close>\<close>

definition loadFromHeap :: "string \<Rightarrow> vm \<Rightarrow> vm_outcome" where
  "loadFromHeap instruction st =
     (case str_at instruction 6 of
        None \<Rightarrow> VmUndefined StringOutOfBounds
      | Some c \<Rightarrow>
          let reg = minus_zero_char c in
          (case substr_from instruction 8 of
             Inl e \<Rightarrow> VmThrow e st
           | Inr txt \<Rightarrow>
               (case stoi txt of
                  Inl e \<Rightarrow> VmThrow e st
                | Inr addr \<Rightarrow>
                    if addr < 0 \<or> addr \<ge> 100 then VmThrow OutOfRange st
                    else reg_write reg (memory st (nat addr)) st)))"

text \<open>
  \<^verbatim>\<open>void execute(const std::string& instruction)\<close>: the opcode is the first three
  characters of the instruction, compared with each mnemonic in the source's order.
\<close>

definition execute :: "string \<Rightarrow> vm \<Rightarrow> vm_outcome" where
  "execute instruction st =
     (let op = take 3 instruction in
      if op = ''MOV'' then mov instruction st
      else if op = ''ADD'' then arithmetic instruction ''ADD'' st
      else if op = ''SUB'' then arithmetic instruction ''SUB'' st
      else if op = ''MUL'' then arithmetic instruction ''MUL'' st
      else if op = ''DIV'' then arithmetic instruction ''DIV'' st
      else if op = ''MOD'' then arithmetic instruction ''MOD'' st
      else if op = ''EXP'' then arithmetic instruction ''EXP'' st
      else if op = ''GT'' then comparison instruction ''GT'' st
      else if op = ''LT'' then comparison instruction ''LT'' st
      else if op = ''EQ'' then comparison instruction ''EQ'' st
      else if op = ''PRINT'' then print instruction st
      else if op = ''JMP'' then jump instruction st
      else if op = ''JEQ'' then jumpIfEqual instruction st
      else if op = ''CALL'' then call instruction st
      else if op = ''RET'' then ret st
      else if op = ''ALLOC'' then alloc instruction st
      else if op = ''STORE'' then store instruction st
      else if op = ''LOAD'' then loadFromHeap instruction st
      else VmThrow (UnknownInstruction (''Unknown instruction: '' @ instruction)) st)"

text \<open>
  One turn of the loop of \<^verbatim>\<open>run\<close>: fetch \<^verbatim>\<open>program[pc++]\<close>, execute it, and on
  an exception report it and clear \<open>running\<close>.
\<close>

definition step :: "vm \<Rightarrow> vm_outcome" where
  "step st =
     (let instruction = program st ! nat (pc st);
          st1 = st\<lparr>pc := pc st + 1\<rparr>
      in case execute instruction st1 of
           VmOk st2 \<Rightarrow> VmOk st2
         | VmThrow e st2 \<Rightarrow> VmOk (st2\<lparr>cerr := cerr st2 @ [e], running := False\<rparr>)
         | VmUndefined u \<Rightarrow> VmUndefined u)"

datatype run_result = Finished vm | Crashed undefined_behaviour

definition fetchable :: "vm \<Rightarrow> bool" where
  "fetchable st = (running st \<and> 0 \<le> pc st \<and> pc st < int (length (program st)))"

partial_function (option) run_loop :: "vm \<Rightarrow> run_result option" where
  "run_loop st =
     (if fetchable st then
        (case step st of
           VmOk st1 \<Rightarrow> run_loop st1
         | VmThrow e st1 \<Rightarrow> Some (Finished st1)
         | VmUndefined u \<Rightarrow> Some (Crashed u))
      else Some (Finished st))"

definition run :: "vm \<Rightarrow> run_result option" where
  "run st = run_loop (st\<lparr>pc := 0, running := True\<rparr>)"

definition load :: "string list \<Rightarrow> vm \<Rightarrow> vm" where
  "load bytecode st = st\<lparr>program := bytecode\<rparr>"

definition defineLabel :: "string \<Rightarrow> vm \<Rightarrow> vm" where
  "defineLabel label st = st\<lparr>labels := (labels st)(label \<mapsto> int (length (program st)))\<rparr>"

text \<open>
  The constructor: registers zeroed, \<open>pc = 0\<close>, not running, stack pointer 99. The heap
  comes from \<^verbatim>\<open>new int[100]\<close> and is not initialised, so its contents are a
  parameter.
\<close>

definition zeroed :: "nat \<Rightarrow> int" where
  "zeroed = (\<lambda>a. 0)"

definition new_vm :: "(nat \<Rightarrow> int) \<Rightarrow> vm" where
  "new_vm heap =
     \<lparr>registers = zeroed, memory = heap, stackPointer = 99, program = [], pc = 0,
      running = False, callStack = [], labels = Map.empty, cout = [], cerr = []\<rparr>"

subsection \<open>Register operands\<close>

text \<open>
  The characters that name a slot of the register file, and the instructions sent to
  \<open>mov\<close>, \<open>arithmetic\<close> or \<open>comparison\<close> in which a register position (offset 4,
  and offset 6 for the two-register forms) holds no such character.
\<close>

definition is_reg_digit :: "char \<Rightarrow> bool" where
  "is_reg_digit c = (c \<in> set ''012345'')"

definition bad_reg_at :: "string \<Rightarrow> nat \<Rightarrow> bool" where
  "bad_reg_at instruction k =
     (case str_at instruction k of Some c \<Rightarrow> \<not> is_reg_digit c | None \<Rightarrow> True)"

definition arithmetic_ops :: "string list" where
  "arithmetic_ops = [''ADD'', ''SUB'', ''MUL'', ''DIV'', ''MOD'', ''EXP'']"

definition comparison_ops :: "string list" where
  "comparison_ops = [''GT'', ''LT'', ''EQ'']"

definition decodes_bad_register :: "string \<Rightarrow> bool" where
  "decodes_bad_register instruction =
     (let op = take 3 instruction in
      (op = ''MOV'' \<and> bad_reg_at instruction 4) \<or>
      ((op \<in> set arithmetic_ops \<or> op \<in> set comparison_ops) \<and>
       (bad_reg_at instruction 4 \<or> bad_reg_at instruction 6)))"

text \<open>The two exceptions a handler can throw before it reaches a register.\<close>

definition immediate_throw :: "string \<Rightarrow> error \<Rightarrow> bool" where
  "immediate_throw instruction e =
     (take 3 instruction = ''MOV'' \<and>
      (e = StoiInvalidArgument \<or> e = StoiOutOfRange \<or> e = SubstrOutOfRange))"

definition zero_divisor_throw :: "string \<Rightarrow> vm \<Rightarrow> error \<Rightarrow> bool" where
  "zero_divisor_throw instruction st e =
     ((take 3 instruction = ''DIV'' \<or> take 3 instruction = ''MOD'') \<and>
      (case str_at instruction 6 of
         Some c2 \<Rightarrow> is_reg_digit c2 \<and> registers st (nat (minus_zero_char c2)) = 0
       | None \<Rightarrow> False) \<and>
      (e = ArithmeticError ''Error: Division by zero!'' \<or>
       e = ArithmeticError ''Error: Modulus by zero!''))"

text \<open>An access outside the register file or beyond the end of the instruction string.\<close>

definition unchecked_access :: "undefined_behaviour \<Rightarrow> bool" where
  "unchecked_access u =
     (case u of
        RegisterOutOfBounds r \<Rightarrow> \<not> reg_ok r
      | StringOutOfBounds \<Rightarrow> True
      | _ \<Rightarrow> False)"

section \<open>The expression interpreter\<close>

text \<open>The fields of \<^verbatim>\<open>class Interpreter\<close> and its \<^verbatim>\<open>struct Function\<close>.\<close>

record Function =
  parameters :: "string list"
  body :: string

record interp =
  input :: string
  pos :: nat
  current_char :: char
  variables :: "string \<rightharpoonup> int"
  functions_tab :: "string \<rightharpoonup> Function"
  arrays :: "string \<rightharpoonup> int list"

text \<open>
  What a member function does: it returns a value, throws (the state is the one at the
  throw), runs into undefined behaviour, or is cut off by the bound that the evaluator
  below carries. A larger bound then goes further; an evaluation that is cut off at every
  bound is one that does not return.
\<close>

datatype 'a outcome =
    Ok 'a interp
  | Throw error interp
  | Undefined undefined_behaviour
  | OutOfFuel

text \<open>\<^verbatim>\<open>void advance()\<close>\<close>

definition advance :: "interp \<Rightarrow> interp" where
  "advance st =
     (let p = pos st + 1 in
      st\<lparr>pos := p, current_char := (if p < length (input st) then input st ! p else CHR 0x00)\<rparr>)"

text \<open>
  The three scanning loops share one shape:
  \<^verbatim>\<open>while (current_char != '\0' && P(current_char)) { result += current_char; advance(); }\<close>
\<close>

definition cursor_left :: "interp \<Rightarrow> nat" where
  "cursor_left st = (if current_char st = CHR 0x00 then 0 else Suc (length (input st) - pos st))"

function scan_while :: "(char \<Rightarrow> bool) \<Rightarrow> string \<Rightarrow> interp \<Rightarrow> string \<times> interp" where
  "scan_while P acc st =
     (if current_char st \<noteq> CHR 0x00 \<and> P (current_char st)
      then scan_while P (acc @ [current_char st]) (advance st)
      else (acc, st))"
  by pat_completeness auto
termination
  by (relation "measure (\<lambda>(P, acc, st). cursor_left st)")
    (auto simp: cursor_left_def advance_def Let_def)

declare scan_while.simps [simp del]

text \<open>\<^verbatim>\<open>void skip_whitespace()\<close>\<close>

definition skip_whitespace :: "interp \<Rightarrow> interp" where
  "skip_whitespace st = snd (scan_while isspace [] st)"

text \<open>\<^verbatim>\<open>int integer()\<close>\<close>

definition integer :: "interp \<Rightarrow> int outcome" where
  "integer st =
     (let (result, st1) = scan_while isdigit [] st in
      case stoi result of
        Inl e \<Rightarrow> Throw e st1
      | Inr v \<Rightarrow> Ok v st1)"

text \<open>\<^verbatim>\<open>std::string identifier()\<close>\<close>

definition identifier_p :: "interp \<Rightarrow> string \<times> interp" where
  "identifier_p st = scan_while (\<lambda>c. isalnum c \<or> c = CHR ''_'') [] st"

text \<open>
  The loop \<^verbatim>\<open>variables[func.parameters[i]] = args[i]\<close> of \<^verbatim>\<open>call_function\<close>.
\<close>

fun bind_params :: "string list \<Rightarrow> int list \<Rightarrow> (string \<rightharpoonup> int) \<Rightarrow> (string \<rightharpoonup> int)" where
  "bind_params (p # ps) (a # as) m = bind_params ps as (m(p \<mapsto> a))"
| "bind_params _ _ m = m"

definition bind_arguments :: "Function \<Rightarrow> int list \<Rightarrow> interp \<Rightarrow> interp" where
  "bind_arguments func args st =
     st\<lparr>variables := bind_params (parameters func) args (variables st)\<rparr>"

text \<open>
  Leaving a function body, on both the normal and the \<^verbatim>\<open>catch (...)\<close> path:
  \<^verbatim>\<open>input = saved_input; pos = saved_pos; current_char = input[pos]; variables = saved_variables;\<close>
\<close>

definition leave_body :: "string \<Rightarrow> nat \<Rightarrow> (string \<rightharpoonup> int) \<Rightarrow> interp \<Rightarrow> interp option" where
  "leave_body saved_input saved_pos saved_variables st =
     (case str_at saved_input saved_pos of
        None \<Rightarrow> None
      | Some c \<Rightarrow>
          Some (st\<lparr>input := saved_input, pos := saved_pos, current_char := c,
                   variables := saved_variables\<rparr>))"

text \<open>Entering it: \<^verbatim>\<open>input = func.body; pos = 0; current_char = input[pos];\<close>\<close>

definition enter_body :: "Function \<Rightarrow> interp \<Rightarrow> interp" where
  "enter_body func st =
     st\<lparr>input := body func, pos := 0,
        current_char := (if body func = [] then CHR 0x00 else hd (body func))\<rparr>"

text \<open>
  \<^verbatim>\<open>factor\<close>, \<^verbatim>\<open>term\<close>, \<^verbatim>\<open>expr\<close> and \<^verbatim>\<open>call_function\<close> call each
  other, and a function body may call its own function without end. The first argument
  bounds the nesting of calls and the turns of the loops; \<open>term_loop\<close>, \<open>expr_loop\<close>
  and \<open>call_args\<close> are the loops of \<^verbatim>\<open>term\<close>, \<^verbatim>\<open>expr\<close> and
  \<^verbatim>\<open>call_function\<close>. The member \<^verbatim>\<open>block\<close> has no caller and is left out.
\<close>

fun factor :: "nat \<Rightarrow> interp \<Rightarrow> int outcome"
  and term_loop :: "nat \<Rightarrow> int \<Rightarrow> interp \<Rightarrow> int outcome"
  and term_p :: "nat \<Rightarrow> interp \<Rightarrow> int outcome"
  and expr_loop :: "nat \<Rightarrow> int \<Rightarrow> interp \<Rightarrow> int outcome"
  and expr :: "nat \<Rightarrow> interp \<Rightarrow> int outcome"
  and call_args :: "nat \<Rightarrow> string list \<Rightarrow> int list \<Rightarrow> interp \<Rightarrow> int list outcome"
  and call_function :: "nat \<Rightarrow> string \<Rightarrow> interp \<Rightarrow> int outcome"
where
  "factor 0 st0 = OutOfFuel"
| "factor (Suc n) st0 =
     (let st = skip_whitespace st0 in
      if isdigit (current_char st) then integer st
      else if isalpha (current_char st) then
        (let (var_name, st1) = identifier_p st in
         if current_char st1 = CHR ''['' then
           (case expr n (advance st1) of
              Ok index st2 \<Rightarrow>
                if current_char st2 \<noteq> CHR '']'' then
                  Throw (SyntaxError ''Expected ']' for array access'') st2
                else
                  (let st3 = advance st2 in
                   case arrays st3 var_name of
                     Some xs \<Rightarrow>
                       if index < 0 \<or> index \<ge> int (length xs) then Throw OutOfBounds st3
                       else Ok (xs ! nat index) st3
                   | None \<Rightarrow> Throw (UndefinedSymbol (''Undefined array: '' @ var_name)) st3)
            | Throw e st2 \<Rightarrow> Throw e st2
            | Undefined u \<Rightarrow> Undefined u
            | OutOfFuel \<Rightarrow> OutOfFuel)
         else
           (case variables st1 var_name of
              Some v \<Rightarrow> Ok v st1
            | None \<Rightarrow>
                (case functions_tab st1 var_name of
                   Some func \<Rightarrow> call_function n var_name st1
                 | None \<Rightarrow>
                     Throw (UndefinedSymbol (''Undefined variable or function: '' @ var_name)) st1)))
      else if current_char st = CHR ''('' then
        (case expr n (advance st) of
           Ok result st2 \<Rightarrow>
             if current_char st2 \<noteq> CHR '')'' then
               Throw (SyntaxError (''Expected ')'' @ [CHR 0x27])) st2
             else Ok result (advance st2)
         | Throw e st2 \<Rightarrow> Throw e st2
         | Undefined u \<Rightarrow> Undefined u
         | OutOfFuel \<Rightarrow> OutOfFuel)
      else Throw (SyntaxError ''Invalid factor'') st)"
| "term_loop 0 result st = OutOfFuel"
| "term_loop (Suc n) result st =
     (if current_char st = CHR ''*'' \<or> current_char st = CHR ''/'' then
        (let op = current_char st in
         case factor n (advance st) of
           Ok v st1 \<Rightarrow>
             if op = CHR ''*'' then
               (if in_int_range (result * v) then term_loop n (result * v) st1
                else Undefined SignedOverflow)
             else
               (if v = 0 then Undefined DivisionByZero
                else if \<not> in_int_range (result sdiv v) then Undefined SignedOverflow
                else term_loop n (result sdiv v) st1)
         | Throw e st1 \<Rightarrow> Throw e st1
         | Undefined u \<Rightarrow> Undefined u
         | OutOfFuel \<Rightarrow> OutOfFuel)
      else Ok result st)"
| "term_p 0 st = OutOfFuel"
| "term_p (Suc n) st =
     (case factor n st of
        Ok result st1 \<Rightarrow> term_loop n result st1
      | Throw e st1 \<Rightarrow> Throw e st1
      | Undefined u \<Rightarrow> Undefined u
      | OutOfFuel \<Rightarrow> OutOfFuel)"
| "expr_loop 0 result st = OutOfFuel"
| "expr_loop (Suc n) result st =
     (if current_char st = CHR ''+'' \<or> current_char st = CHR ''-'' then
        (let op = current_char st in
         case term_p n (advance st) of
           Ok v st1 \<Rightarrow>
             (let r = (if op = CHR ''+'' then result + v else result - v) in
              if in_int_range r then expr_loop n r st1 else Undefined SignedOverflow)
         | Throw e st1 \<Rightarrow> Throw e st1
         | Undefined u \<Rightarrow> Undefined u
         | OutOfFuel \<Rightarrow> OutOfFuel)
      else Ok result st)"
| "expr 0 st = OutOfFuel"
| "expr (Suc n) st =
     (case term_p n st of
        Ok result st1 \<Rightarrow> expr_loop n result st1
      | Throw e st1 \<Rightarrow> Throw e st1
      | Undefined u \<Rightarrow> Undefined u
      | OutOfFuel \<Rightarrow> OutOfFuel)"
| "call_args 0 params args st = OutOfFuel"
| "call_args (Suc n) [] args st = Ok args st"
| "call_args (Suc n) (param # params) args st =
     (if args \<noteq> [] \<and> current_char st \<noteq> CHR '','' then
        Throw (SyntaxError ''Expected ',' between function arguments'') st
      else
        (case expr n (if args \<noteq> [] then advance st else st) of
           Ok v st1 \<Rightarrow> call_args n params (args @ [v]) st1
         | Throw e st1 \<Rightarrow> Throw e st1
         | Undefined u \<Rightarrow> Undefined u
         | OutOfFuel \<Rightarrow> OutOfFuel))"
| "call_function 0 func_name st = OutOfFuel"
| "call_function (Suc n) func_name st =
     (case functions_tab st func_name of
        None \<Rightarrow> Throw (UndefinedSymbol (''Undefined function: '' @ func_name)) st
      | Some func \<Rightarrow>
          (let st1 = skip_whitespace st in
           if current_char st1 \<noteq> CHR ''('' then
             Throw (SyntaxError ''Expected '(' for function call'') st1
           else
             (case call_args n (parameters func) [] (advance st1) of
                Ok args st2 \<Rightarrow>
                  if current_char st2 \<noteq> CHR '')'' then
                    Throw (SyntaxError ''Expected ')' after function arguments'') st2
                  else
                    (let st3 = advance st2;
                         saved_variables = variables st3;
                         st4 = bind_arguments func args st3;
                         saved_pos = pos st4;
                         saved_input = input st4;
                         st5 = enter_body func st4
                     in
                       case expr n st5 of
                         Ok result st6 \<Rightarrow>
                           (case leave_body saved_input saved_pos saved_variables st6 of
                              None \<Rightarrow> Undefined StringOutOfBounds
                            | Some st7 \<Rightarrow> Ok result st7)
                       | Throw e st6 \<Rightarrow>
                           (case leave_body saved_input saved_pos saved_variables st6 of
                              None \<Rightarrow> Undefined StringOutOfBounds
                            | Some st7 \<Rightarrow> Throw e st7)
                       | Undefined u \<Rightarrow> Undefined u
                       | OutOfFuel \<Rightarrow> OutOfFuel)
              | Throw e st2 \<Rightarrow> Throw e st2
              | Undefined u \<Rightarrow> Undefined u
              | OutOfFuel \<Rightarrow> OutOfFuel)))"

text \<open>
  The parameter loop of a function declaration:
  \<^verbatim>\<open>while (true) { parameters.push_back(identifier()); if (current_char == ')') break;
  if (current_char != ',') error(...); advance(); }\<close>
\<close>

function parse_params :: "string list \<Rightarrow> interp \<Rightarrow> string list outcome" where
  "parse_params ps st =
     (let (name, st1) = identifier_p st; ps1 = ps @ [name] in
      if current_char st1 = CHR '')'' then Ok ps1 st1
      else if current_char st1 \<noteq> CHR '','' then
        Throw (SyntaxError ''Expected ',' between parameters'') st1
      else parse_params ps1 (advance st1))"
  by pat_completeness auto
termination
proof (relation "measure (\<lambda>(ps, st). cursor_left st)")
  show "wf (measure (\<lambda>(ps, st). cursor_left st))" by simp
next
  fix ps :: "string list" and st x name st1 ps1
  assume x: "x = identifier_p st" and p: "(name, st1) = x"
    and c: "\<not> current_char st1 \<noteq> CHR '',''"
  have scan: "cursor_left (snd (scan_while P acc s)) \<le> cursor_left s" for P acc s
  proof (induction P acc s rule: scan_while.induct)
    case (1 P acc s)
    show ?case
    proof (cases "current_char s \<noteq> CHR 0x00 \<and> P (current_char s)")
      case True
      then have "cursor_left (advance s) < cursor_left s"
        by (auto simp: cursor_left_def advance_def Let_def)
      with 1 True show ?thesis
        by (subst scan_while.simps) simp
    next
      case False
      then show ?thesis
        by (subst scan_while.simps) auto
    qed
  qed
  have "st1 = snd (identifier_p st)"
    using x p by (metis snd_conv)
  then have "cursor_left st1 \<le> cursor_left st"
    by (simp add: identifier_p_def scan)
  moreover have "cursor_left (advance st1) < cursor_left st1"
    using c by (auto simp: cursor_left_def advance_def Let_def)
  ultimately show "((ps1, advance st1), (ps, st)) \<in> measure (\<lambda>(ps, st). cursor_left st)"
    by simp
qed

declare parse_params.simps [simp del]

text \<open>
  The branch of \<^verbatim>\<open>statement\<close> under \<^verbatim>\<open>else if (current_char == 'f')\<close>,
  from its \<^verbatim>\<open>advance()\<close> on.
\<close>

definition declare_function :: "interp \<Rightarrow> unit outcome" where
  "declare_function st0 =
     (let (keyword, st) = identifier_p (advance st0) in
      if keyword = ''function'' then
        (let (func_name, st1) = identifier_p st;
             st2 = skip_whitespace st1 in
         if current_char st2 \<noteq> CHR ''('' then
           Throw (SyntaxError ''Expected '(' for function declaration'') st2
         else
           (case (let st3 = advance st2 in
                  if current_char st3 \<noteq> CHR '')'' then parse_params [] st3 else Ok [] st3) of
              Ok params st4 \<Rightarrow>
                (let st5 = skip_whitespace (advance st4) in
                 if current_char st5 \<noteq> CHR ''{'' then
                   Throw (SyntaxError ''Expected '{' for function body'') st5
                 else
                   (let (body_text, st6) = scan_while (\<lambda>c. c \<noteq> CHR ''}'') [] (advance st5) in
                    if current_char st6 \<noteq> CHR ''}'' then
                      Throw (SyntaxError ''Expected '}' to end function body'') st6
                    else
                      (let st7 = advance st6 in
                       Ok () (st7\<lparr>functions_tab := (functions_tab st7)
                                 (func_name \<mapsto> \<lparr>parameters = params, body = body_text\<rparr>)\<rparr>))))
            | Throw e st4 \<Rightarrow> Throw e st4
            | Undefined u \<Rightarrow> Undefined u
            | OutOfFuel \<Rightarrow> OutOfFuel))
      else Throw (SyntaxError (''Unknown keyword: '' @ keyword)) st)"

text \<open>
  The branch under \<^verbatim>\<open>else if (current_char == 'a')\<close>. A negative size converts to
  a huge \<^verbatim>\<open>size_t\<close> and the vector's constructor throws
  \<^verbatim>\<open>std::length_error\<close>; memory is otherwise taken as unlimited.
\<close>

definition declare_array :: "nat \<Rightarrow> interp \<Rightarrow> unit outcome" where
  "declare_array n st0 =
     (let (keyword, st) = identifier_p (advance st0) in
      if keyword = ''array'' then
        (let (array_name, st1) = identifier_p st;
             st2 = skip_whitespace st1 in
         if current_char st2 \<noteq> CHR ''['' then
           Throw (SyntaxError ''Expected '[' for array declaration'') st2
         else
           (case expr n (advance st2) of
              Ok sz st3 \<Rightarrow>
                if current_char st3 \<noteq> CHR '']'' then
                  Throw (SyntaxError ''Expected ']' after array size'') st3
                else
                  (let st4 = advance st3 in
                   if sz < 0 then Throw VectorLengthError st4
                   else Ok () (st4\<lparr>arrays := (arrays st4)(array_name \<mapsto> replicate (nat sz) 0)\<rparr>))
            | Throw e st3 \<Rightarrow> Throw e st3
            | Undefined u \<Rightarrow> Undefined u
            | OutOfFuel \<Rightarrow> OutOfFuel))
      else Throw (SyntaxError (''Unknown keyword: '' @ keyword)) st)"

text \<open>
  \<^verbatim>\<open>void statement()\<close>, its branches in the source's order: the test
  \<^verbatim>\<open>isalpha(current_char)\<close> comes before the tests for \<^verbatim>\<open>'f'\<close> and
  \<^verbatim>\<open>'a'\<close>.
\<close>

definition statement :: "nat \<Rightarrow> interp \<Rightarrow> unit outcome" where
  "statement n st0 =
     (let st = skip_whitespace st0 in
      if current_char st = CHR 0x00 then Ok () st
      else if isalpha (current_char st) then
        (let (ident, st1) = identifier_p st;
             st2 = skip_whitespace st1 in
         if current_char st2 = CHR ''='' then
           (case expr n (advance st2) of
              Ok v st3 \<Rightarrow> Ok () (st3\<lparr>variables := (variables st3)(ident \<mapsto> v)\<rparr>)
            | Throw e st3 \<Rightarrow> Throw e st3
            | Undefined u \<Rightarrow> Undefined u
            | OutOfFuel \<Rightarrow> OutOfFuel)
         else if current_char st2 = CHR ''('' then
           (case call_function n ident st2 of
              Ok v st3 \<Rightarrow> Ok () st3
            | Throw e st3 \<Rightarrow> Throw e st3
            | Undefined u \<Rightarrow> Undefined u
            | OutOfFuel \<Rightarrow> OutOfFuel)
         else if current_char st2 = CHR ''['' then
           (case expr n (advance st2) of
              Ok index st3 \<Rightarrow>
                if current_char st3 \<noteq> CHR '']'' then
                  Throw (SyntaxError ''Expected ']' for array assignment'') st3
                else
                  (let st4 = skip_whitespace (advance st3) in
                   if current_char st4 \<noteq> CHR ''='' then
                     Throw (SyntaxError ''Expected '=' for array assignment'') st4
                   else
                     (case expr n (advance st4) of
                        Ok v st5 \<Rightarrow>
                          (case arrays st5 ident of
                             Some xs \<Rightarrow>
                               if index < 0 \<or> index \<ge> int (length xs) then Throw OutOfBounds st5
                               else Ok () (st5\<lparr>arrays := (arrays st5)(ident \<mapsto> xs[nat index := v])\<rparr>)
                           | None \<Rightarrow> Throw (UndefinedSymbol (''Undefined array: '' @ ident)) st5)
                      | Throw e st5 \<Rightarrow> Throw e st5
                      | Undefined u \<Rightarrow> Undefined u
                      | OutOfFuel \<Rightarrow> OutOfFuel))
            | Throw e st3 \<Rightarrow> Throw e st3
            | Undefined u \<Rightarrow> Undefined u
            | OutOfFuel \<Rightarrow> OutOfFuel)
         else Throw (SyntaxError ''Invalid statement'') st2)
      else if current_char st = CHR ''f'' then declare_function st
      else if current_char st = CHR ''a'' then declare_array n st
      else Throw (SyntaxError ''Unknown statement'') st)"

text \<open>\<^verbatim>\<open>void program()\<close>; the bound counts the statements.\<close>

fun program_p :: "nat \<Rightarrow> interp \<Rightarrow> unit outcome" where
  "program_p 0 st = OutOfFuel"
| "program_p (Suc n) st =
     (if current_char st \<noteq> CHR 0x00 then
        (case statement n st of
           Ok u st1 \<Rightarrow>
             (let st2 = skip_whitespace st1 in
              if current_char st2 = CHR '';'' then program_p n (advance st2)
              else if current_char st2 \<noteq> CHR 0x00 then
                Throw (SyntaxError ''Expected ';' after statement'') st2
              else program_p n st2)
         | Throw e st1 \<Rightarrow> Throw e st1
         | Undefined u \<Rightarrow> Undefined u
         | OutOfFuel \<Rightarrow> OutOfFuel)
      else Ok () st)"

text \<open>
  \<^verbatim>\<open>void interpret(const std::string& text)\<close>. It starts with
  \<^verbatim>\<open>input = text; pos = 0; current_char = input[pos];\<close> and its handler prints
  the message of the exception and returns; the outcome \<open>Throw e st\<close> stands for that.
\<close>

definition set_input :: "string \<Rightarrow> interp \<Rightarrow> interp" where
  "set_input txt st =
     st\<lparr>input := txt, pos := 0, current_char := (if txt = [] then CHR 0x00 else hd txt)\<rparr>"

definition interpret_p :: "nat \<Rightarrow> string \<Rightarrow> interp \<Rightarrow> unit outcome" where
  "interpret_p n txt st = program_p n (set_input txt st)"

text \<open>A freshly constructed interpreter: the three tables are empty.\<close>

definition fresh :: interp where
  "fresh = \<lparr>input = [], pos = 0, current_char = CHR 0x00, variables = Map.empty,
            functions_tab = Map.empty, arrays = Map.empty\<rparr>"

subsection \<open>What evaluation leaves alone\<close>

text \<open>
  The cursor is consistent when \<open>current_char\<close> is the character of the buffer at
  \<open>pos\<close>, or the null past its end; \<^verbatim>\<open>interpret\<close> and \<^verbatim>\<open>advance\<close> set it
  so. Two states have the same tables when they differ in the cursor position only.
\<close>

definition cursor_ok :: "interp \<Rightarrow> bool" where
  "cursor_ok st =
     (current_char st = (if pos st < length (input st) then input st ! pos st else CHR 0x00))"

definition same_tables :: "interp \<Rightarrow> interp \<Rightarrow> bool" where
  "same_tables st st' =
     (input st' = input st \<and> variables st' = variables st \<and>
      functions_tab st' = functions_tab st \<and> arrays st' = arrays st)"

definition carries :: "interp \<Rightarrow> interp \<Rightarrow> bool" where
  "carries st st' = (same_tables st st' \<and> (cursor_ok st \<longrightarrow> cursor_ok st'))"

definition frame :: "interp \<Rightarrow> 'a outcome \<Rightarrow> bool" where
  "frame st r =
     (case r of
        Ok v st' \<Rightarrow> carries st st'
      | Throw e st' \<Rightarrow> carries st st'
      | _ \<Rightarrow> True)"

text \<open>
  Two interpreter states for the examples: one with an array \<open>a\<close> holding 4, 5, 6, one
  with a variable \<open>x\<close> and two functions of a parameter \<open>x\<close>, the second of which
  refers to an undefined \<open>y\<close>.
\<close>

definition array_env :: interp where
  "array_env = fresh\<lparr>arrays := [''a'' \<mapsto> [4, 5, 6]]\<rparr>"

definition square_env :: interp where
  "square_env =
     fresh\<lparr>variables := [''x'' \<mapsto> 3],
           functions_tab := [''f'' \<mapsto> \<lparr>parameters = [''x''], body = ''x*x''\<rparr>,
                             ''g'' \<mapsto> \<lparr>parameters = [''x''], body = ''x*y''\<rparr>]\<rparr>"


section \<open>Properties of the virtual machine\<close>

lemma reg_ok_iff_digit: "reg_ok (minus_zero_char c) = is_reg_digit c"
proof -
  have inj: "\<And>d. (of_char c :: nat) = of_char d \<longleftrightarrow> c = d" by simp
  have "reg_ok (minus_zero_char c) \<longleftrightarrow> (of_char c :: nat) \<in> {48, 49, 50, 51, 52, 53}"
    by (auto simp: reg_ok_def minus_zero_char_def)
  also have "\<dots> \<longleftrightarrow> c \<in> set ''012345''"
    using inj [of "CHR ''0''"] inj [of "CHR ''1''"] inj [of "CHR ''2''"]
      inj [of "CHR ''3''"] inj [of "CHR ''4''"] inj [of "CHR ''5''"]
    by auto
  finally show ?thesis by (simp add: is_reg_digit_def)
qed

lemmas stoi_eval = stoi_def stoi_unsigned_def isspace_def isdigit_def digits_value_def
  in_int_range_def INT_MIN_def INT_MAX_def minus_zero_char_def

lemmas decode_eval = str_at_def substr_from_def reg_write_def reg_ok_def

text \<open>
  The opcode has at most three characters, so the mnemonics of four and five letters
  are never matched: \<open>execute\<close> has only these branches.
\<close>

lemma execute_reachable:
  "execute instruction st =
     (let op = take 3 instruction in
      if op = ''MOV'' then mov instruction st
      else if op = ''ADD'' then arithmetic instruction ''ADD'' st
      else if op = ''SUB'' then arithmetic instruction ''SUB'' st
      else if op = ''MUL'' then arithmetic instruction ''MUL'' st
      else if op = ''DIV'' then arithmetic instruction ''DIV'' st
      else if op = ''MOD'' then arithmetic instruction ''MOD'' st
      else if op = ''EXP'' then arithmetic instruction ''EXP'' st
      else if op = ''GT'' then comparison instruction ''GT'' st
      else if op = ''LT'' then comparison instruction ''LT'' st
      else if op = ''EQ'' then comparison instruction ''EQ'' st
      else if op = ''JMP'' then jump instruction st
      else if op = ''JEQ'' then jumpIfEqual instruction st
      else if op = ''RET'' then ret st
      else VmThrow (UnknownInstruction (''Unknown instruction: '' @ instruction)) st)"
proof -
  have "length (take 3 instruction) \<le> 3" by simp
  then have "take 3 instruction \<noteq> ''PRINT''" "take 3 instruction \<noteq> ''CALL''"
    "take 3 instruction \<noteq> ''ALLOC''" "take 3 instruction \<noteq> ''STORE''"
    "take 3 instruction \<noteq> ''LOAD''"
    by (auto dest: arg_cong [of _ _ length])
  then show ?thesis
    by (simp add: execute_def Let_def)
qed

text \<open>
  C2. \<^verbatim>\<open>STORE R0 a\<close> and \<^verbatim>\<open>LOAD R1 a\<close> are not dispatched to \<open>store\<close> and
  \<open>loadFromHeap\<close>: whatever the address text and the state, each is rejected as an
  unknown instruction and the state is left as it was, and \<^verbatim>\<open>LOAD R0 150\<close> fails
  that way too, not with \<open>OutOfRange\<close>.
\<close>

theorem store_load_rejected:
  "execute (''STORE R0 '' @ a) st =
     VmThrow (UnknownInstruction (''Unknown instruction: STORE R0 '' @ a)) st \<and>
   execute (''LOAD R1 '' @ a) st =
     VmThrow (UnknownInstruction (''Unknown instruction: LOAD R1 '' @ a)) st \<and>
   execute ''LOAD R0 150'' st =
     VmThrow (UnknownInstruction ''Unknown instruction: LOAD R0 150'') st"
  by (simp add: execute_def)

text \<open>
  C3. \<^verbatim>\<open>CALL label\<close> is rejected as an unknown instruction for every label, defined
  or not: nothing is pushed and the program counter is not changed. \<^verbatim>\<open>RET\<close> on an
  empty call stack throws \<open>StackUnderflow\<close>.
\<close>

theorem call_rejected:
  "execute (''CALL '' @ label) st =
     VmThrow (UnknownInstruction (''Unknown instruction: CALL '' @ label)) st \<and>
   execute ''RET'' (st\<lparr>callStack := []\<rparr>) = VmThrow StackUnderflow (st\<lparr>callStack := []\<rparr>)"
  by (simp add: execute_def ret_def)

lemma run_call_halts:
  "run (defineLabel ''sub'' (load [''CALL sub'', ''RET''] (new_vm heap))) =
     Some (Finished ((new_vm heap)\<lparr>program := [''CALL sub'', ''RET''],
        labels := [''sub'' \<mapsto> 2], pc := 1, running := False,
        cerr := [UnknownInstruction ''Unknown instruction: CALL sub'']\<rparr>))"
  unfolding run_def
  apply (subst run_loop.simps)
  apply (simp add: Let_def fetchable_def step_def execute_def load_def defineLabel_def new_vm_def)
  apply (subst run_loop.simps)
  apply (simp add: fetchable_def)
  done

text \<open>
  C7. On \<^verbatim>\<open>MOV R0 10; MOV R1 5; MUL R0 R1\<close> the run stops in the first
  instruction: offset 4 holds \<^verbatim>\<open>'R'\<close>, so the register index is 34 and the write
  is outside the register file. \<^verbatim>\<open>DIV R0 R1\<close> reads its divisor through the blank
  at offset 6, index \<open>-16\<close>, whatever the registers hold.
\<close>

theorem mov_mul_div_out_of_bounds:
  "run (load [''MOV R0 10'', ''MOV R1 5'', ''MUL R0 R1''] st) =
     Some (Crashed (RegisterOutOfBounds 34)) \<and>
   execute ''MUL R0 R1'' st = VmUndefined (RegisterOutOfBounds (- 16)) \<and>
   execute ''DIV R0 R1'' st = VmUndefined (RegisterOutOfBounds (- 16)) \<and>
   execute ''MOD R0 R1'' st = VmUndefined (RegisterOutOfBounds (- 16))"
proof -
  have m: "execute ''MOV R0 10'' s = VmUndefined (RegisterOutOfBounds 34)" for s
    by (simp add: execute_def mov_def decode_eval stoi_eval)
  have "run (load [''MOV R0 10'', ''MOV R1 5'', ''MUL R0 R1''] st) =
     Some (Crashed (RegisterOutOfBounds 34))"
    unfolding run_def
    by (subst run_loop.simps) (simp add: Let_def fetchable_def step_def load_def m)
  moreover have "execute ''MUL R0 R1'' st = VmUndefined (RegisterOutOfBounds (- 16))"
    by (simp add: execute_def arithmetic_def decode_eval minus_zero_char_def)
  moreover have "execute ''DIV R0 R1'' st = VmUndefined (RegisterOutOfBounds (- 16))"
    by (simp add: execute_def arithmetic_def decode_eval minus_zero_char_def)
  moreover have "execute ''MOD R0 R1'' st = VmUndefined (RegisterOutOfBounds (- 16))"
    by (simp add: execute_def arithmetic_def decode_eval minus_zero_char_def)
  ultimately show ?thesis by simp
qed

text \<open>
  With the operands written without the \<^verbatim>\<open>R\<close>, the same handlers do what the
  mnemonics say: the product is 50, and a division by a zeroed register halts the run
  with \<open>ArithmeticError\<close> before the next instruction.
\<close>

lemma unprefixed_mul:
  "run (load [''MOV 0 10'', ''MOV 1 5'', ''MUL 0 1''] (new_vm heap)) = Some (Finished st') \<Longrightarrow>
   registers st' 0 = 50"
  unfolding run_def
  apply (subst (asm) run_loop.simps)
  apply (simp add: Let_def fetchable_def step_def load_def new_vm_def execute_def mov_def decode_eval stoi_eval)
  apply (subst (asm) run_loop.simps)
  apply (simp add: Let_def fetchable_def step_def load_def new_vm_def execute_def mov_def decode_eval stoi_eval)
  apply (subst (asm) run_loop.simps)
  apply (simp add: Let_def fetchable_def step_def load_def new_vm_def execute_def arithmetic_def decode_eval stoi_eval)
  apply (subst (asm) run_loop.simps)
  apply (auto simp add: fetchable_def)
  done

lemma unprefixed_div_by_zero:
  "run (load [''DIV 0 1'', ''MOV 0 7''] (new_vm heap)) =
     Some (Finished ((new_vm heap)\<lparr>program := [''DIV 0 1'', ''MOV 0 7''], pc := 1,
        running := False, cerr := [ArithmeticError ''Error: Division by zero!'']\<rparr>))"
  unfolding run_def
  apply (subst run_loop.simps)
  apply (simp add: Let_def fetchable_def step_def load_def new_vm_def execute_def arithmetic_def decode_eval minus_zero_char_def zeroed_def)
  apply (subst run_loop.simps)
  apply (simp add: fetchable_def)
  done


text \<open>
  Where the second operand does name a register and that register holds 0, \<open>DIV\<close> and
  \<open>MOD\<close> throw before anything is written, and the run loop reports the exception and
  stops with the program counter behind the faulting instruction.
\<close>

lemma zero_divisor_throws:
  assumes "take 3 instruction = ''DIV'' \<or> take 3 instruction = ''MOD''"
    and "str_at instruction 4 = Some c1" and "str_at instruction 6 = Some c2"
    and "is_reg_digit c2" and "registers st (nat (minus_zero_char c2)) = 0"
  shows "execute instruction st =
     VmThrow (ArithmeticError (if take 3 instruction = ''DIV'' then ''Error: Division by zero!''
                               else ''Error: Modulus by zero!'')) st"
  using assms
  by (auto simp: execute_def arithmetic_def Let_def reg_ok_iff_digit)

lemma zero_divisor_halts_run:
  assumes "fetchable st" and "program st ! nat (pc st) = instruction"
    and "take 3 instruction = ''DIV'' \<or> take 3 instruction = ''MOD''"
    and "str_at instruction 4 = Some c1" and "str_at instruction 6 = Some c2"
    and "is_reg_digit c2" and "registers st (nat (minus_zero_char c2)) = 0"
  shows "run_loop st =
     Some (Finished (st\<lparr>pc := pc st + 1, running := False,
       cerr := cerr st @ [ArithmeticError (if take 3 instruction = ''DIV''
         then ''Error: Division by zero!'' else ''Error: Modulus by zero!'')]\<rparr>))"
proof -
  let ?st1 = "st\<lparr>pc := pc st + 1\<rparr>"
  have "registers ?st1 (nat (minus_zero_char c2)) = 0"
    using assms(7) by simp
  from zero_divisor_throws [OF assms(3) assms(4) assms(5) assms(6) this]
  have s: "step st = VmOk (?st1\<lparr>cerr := cerr ?st1 @ [ArithmeticError
      (if take 3 instruction = ''DIV'' then ''Error: Division by zero!''
       else ''Error: Modulus by zero!'')], running := False\<rparr>)"
    using assms(2) by (simp add: step_def Let_def)
  show ?thesis
    apply (subst run_loop.simps)
    apply (simp only: assms(1) if_True s vm_outcome.case)
    apply (subst run_loop.simps)
    apply (simp add: fetchable_def)
    done
qed

text \<open>
  C10 as stated fails: on a new machine \<^verbatim>\<open>DIV 9 1\<close> is dispatched with
  \<^verbatim>\<open>'9'\<close> in the first register position, and the handler throws
  \<open>ArithmeticError\<close> on the zero in register 1 before it touches register 9.
\<close>

theorem div_bad_index_throws:
  "take 3 ''DIV 9 1'' = ''DIV'' \<and> decodes_bad_register ''DIV 9 1'' \<and>
   execute ''DIV 9 1'' (new_vm zeroed) =
     VmThrow (ArithmeticError ''Error: Division by zero!'') (new_vm zeroed)"
  by (simp add: execute_def arithmetic_def decodes_bad_register_def arithmetic_ops_def
      bad_reg_at_def is_reg_digit_def decode_eval minus_zero_char_def new_vm_def zeroed_def)

lemma mov_bad:
  assumes "bad_reg_at instruction 4"
  shows "case mov instruction st of
           VmOk st' \<Rightarrow> False
         | VmThrow e st' \<Rightarrow> e = StoiInvalidArgument \<or> e = StoiOutOfRange \<or> e = SubstrOutOfRange
         | VmUndefined u \<Rightarrow> unchecked_access u"
  using assms
  by (auto simp: mov_def bad_reg_at_def unchecked_access_def reg_write_def reg_ok_iff_digit
      substr_from_def stoi_def stoi_unsigned_def Let_def
      split: sum.splits list.splits if_splits option.splits)

lemma arithmetic_bad:
  assumes "bad_reg_at instruction 4 \<or> bad_reg_at instruction 6" "op \<in> set arithmetic_ops"
  shows "case arithmetic instruction op st of
           VmOk st' \<Rightarrow> False
         | VmThrow e st' \<Rightarrow>
             (op = ''DIV'' \<or> op = ''MOD'') \<and>
             (case str_at instruction 6 of
                Some c2 \<Rightarrow> is_reg_digit c2 \<and> registers st (nat (minus_zero_char c2)) = 0
              | None \<Rightarrow> False) \<and>
             (e = ArithmeticError ''Error: Division by zero!'' \<or>
              e = ArithmeticError ''Error: Modulus by zero!'')
         | VmUndefined u \<Rightarrow> unchecked_access u"
  using assms
  by (auto simp: arithmetic_def arithmetic_ops_def bad_reg_at_def unchecked_access_def
      reg_write_def reg_ok_iff_digit Let_def split: option.splits)

lemma comparison_dispatch:
  assumes "take 3 instruction \<in> set comparison_ops"
  shows "execute instruction st = VmUndefined StringOutOfBounds"
proof -
  from assms have "length (take 3 instruction) = 2"
    by (auto simp: comparison_ops_def dest: arg_cong [of _ _ length])
  then have "length instruction = 2"
    by (simp add: min_def split: if_splits)
  then have "str_at instruction 4 = None"
    by (simp add: str_at_def)
  with assms show ?thesis
    by (auto simp: execute_def comparison_def comparison_ops_def)
qed

text \<open>
  C10, amended. An instruction sent to \<open>mov\<close>, \<open>arithmetic\<close> or \<open>comparison\<close> with
  a register position that holds none of \<^verbatim>\<open>'0'\<close> to \<^verbatim>\<open>'5'\<close> never completes:
  no handler checks the index. Either the access happens, outside the register file or
  beyond the end of the instruction string, and nothing is thrown; or the handler has
  thrown before reaching it, \<open>mov\<close> on an immediate that does not parse, \<open>DIV\<close> and
  \<open>MOD\<close> on a valid second register that holds 0.
\<close>

theorem unvalidated_register_index:
  assumes "decodes_bad_register instruction"
  shows "case execute instruction st of
           VmOk st' \<Rightarrow> False
         | VmThrow e st' \<Rightarrow> immediate_throw instruction e \<or> zero_divisor_throw instruction st e
         | VmUndefined u \<Rightarrow> unchecked_access u"
proof -
  let ?op = "take 3 instruction"
  consider (m) "?op = ''MOV''" "bad_reg_at instruction 4"
    | (a) "?op \<in> set arithmetic_ops" "bad_reg_at instruction 4 \<or> bad_reg_at instruction 6"
    | (c) "?op \<in> set comparison_ops"
    using assms by (auto simp: decodes_bad_register_def Let_def)
  then show ?thesis
  proof cases
    case m
    then show ?thesis
      using mov_bad [OF m(2), of st]
      by (auto simp: execute_def immediate_throw_def split: vm_outcome.splits)
  next
    case a
    have e: "execute instruction st = arithmetic instruction ?op st"
      using a(1) by (auto simp: execute_def arithmetic_ops_def)
    show ?thesis
      using arithmetic_bad [OF a(2) a(1), of st] a(1)
      by (auto simp: e zero_divisor_throw_def arithmetic_ops_def split: vm_outcome.splits)
  next
    case c
    then show ?thesis
      by (simp add: comparison_dispatch unchecked_access_def)
  qed
qed

theorem unvalidated_register_index_witness:
  "decodes_bad_register ''MOV R0 10'' \<and>
   execute ''MOV R0 10'' (new_vm zeroed) = VmUndefined (RegisterOutOfBounds 34) \<and>
   unchecked_access (RegisterOutOfBounds 34)"
proof -
  have d: "decodes_bad_register ''MOV R0 10''"
    by (simp add: decodes_bad_register_def bad_reg_at_def str_at_def is_reg_digit_def)
  have e: "execute ''MOV R0 10'' (new_vm zeroed) = VmUndefined (RegisterOutOfBounds 34)"
    by (simp add: execute_def mov_def decode_eval stoi_eval)
  from unvalidated_register_index [OF d, of "new_vm zeroed"] d e show ?thesis
    by simp
qed

section \<open>Properties of the interpreter\<close>

subsection \<open>Evaluation keeps the buffer and the tables\<close>

lemma carries_refl [simp]: "carries st st"
  by (simp add: carries_def same_tables_def)

lemma carries_trans: "carries a b \<Longrightarrow> carries b c \<Longrightarrow> carries a c"
  by (simp add: carries_def same_tables_def)

lemma carries_advance: "carries st (advance st)"
  by (simp add: carries_def same_tables_def cursor_ok_def advance_def Let_def)

lemma carries_scan_while: "carries st (snd (scan_while P acc st))"
proof (induction P acc st rule: scan_while.induct)
  case (1 P acc st)
  show ?case
  proof (cases "current_char st \<noteq> CHR 0x00 \<and> P (current_char st)")
    case True
    with 1 have "carries (advance st) (snd (scan_while P acc st))"
      by (subst scan_while.simps) simp
    then show ?thesis
      using carries_advance carries_trans by blast
  next
    case False
    then show ?thesis
      by (subst scan_while.simps) auto
  qed
qed

lemma carries_skip_whitespace: "carries st (skip_whitespace st)"
  by (simp add: skip_whitespace_def carries_scan_while)

lemma carries_advanceI: "carries (advance a) b \<Longrightarrow> carries a b"
  using carries_advance carries_trans by blast

lemma carries_skipI: "carries (skip_whitespace a) b \<Longrightarrow> carries a b"
  using carries_skip_whitespace carries_trans by blast

lemma carries_identifier: "identifier_p st = (name, st1) \<Longrightarrow> carries st st1"
  using carries_scan_while [of st "\<lambda>c. isalnum c \<or> c = CHR ''_''" "[]"]
  by (simp add: identifier_p_def)

lemma frame_simps [simp]:
  "frame st (Ok v st') = carries st st'"
  "frame st (Throw e st') = carries st st'"
  "frame st (Undefined u)"
  "frame st OutOfFuel"
  by (simp_all add: frame_def)

lemma frame_integer: "frame st (integer st)"
  using carries_scan_while [of st isdigit "[]"]
  by (auto simp: integer_def split: prod.splits sum.splits)

lemma frame_via: "carries st st1 \<Longrightarrow> frame st1 r \<Longrightarrow> frame st r"
  by (cases r) (auto intro: carries_trans)

lemma frame_factor_step:
  assumes e: "\<And>s. frame s (expr n s)" and c: "\<And>f s. frame s (call_function n f s)"
  shows "frame st0 (factor (Suc n) st0)"
proof -
  let ?st = "skip_whitespace st0"
  obtain name st1 where id: "identifier_p ?st = (name, st1)" by (cases "identifier_p ?st")
  have t: "carries st0 ?st" by (rule carries_skip_whitespace)
  have t1: "carries st0 st1"
    using carries_identifier [OF id] t carries_trans by blast
  have a: "frame st0 (case expr n (advance st1) of
              Ok index st2 \<Rightarrow>
                if current_char st2 \<noteq> CHR '']'' then
                  Throw (SyntaxError ''Expected ']' for array access'') st2
                else
                  (let st3 = advance st2 in
                   case arrays st3 name of
                     Some xs \<Rightarrow>
                       if index < 0 \<or> index \<ge> int (length xs) then Throw OutOfBounds st3
                       else Ok (xs ! nat index) st3
                   | None \<Rightarrow> Throw (UndefinedSymbol (''Undefined array: '' @ name)) st3)
            | Throw e st2 \<Rightarrow> Throw e st2
            | Undefined u \<Rightarrow> Undefined u
            | OutOfFuel \<Rightarrow> OutOfFuel)"
  proof (cases "expr n (advance st1)")
    case (Ok index st2)
    then have "carries st0 st2"
      using e [of "advance st1"] t1 by (auto intro: carries_trans carries_advanceI)
    moreover from this have "carries st0 (advance st2)"
      using carries_advance carries_trans by blast
    ultimately show ?thesis
      using Ok by (simp add: Let_def split: option.splits)
  next
    case (Throw err st2)
    then have "carries st0 st2"
      using e [of "advance st1"] t1 by (auto intro: carries_trans carries_advanceI)
    with Throw show ?thesis by simp
  qed simp_all
  have b: "frame st0 (case expr n (advance ?st) of
           Ok result st2 \<Rightarrow>
             if current_char st2 \<noteq> CHR '')'' then
               Throw (SyntaxError (''Expected ')'' @ [CHR 0x27])) st2
             else Ok result (advance st2)
         | Throw e st2 \<Rightarrow> Throw e st2
         | Undefined u \<Rightarrow> Undefined u
         | OutOfFuel \<Rightarrow> OutOfFuel)"
  proof (cases "expr n (advance ?st)")
    case (Ok result st2)
    then have "carries st0 st2"
      using e [of "advance ?st"] t by (auto intro: carries_trans carries_advanceI)
    moreover from this have "carries st0 (advance st2)"
      using carries_advance carries_trans by blast
    ultimately show ?thesis
      using Ok by simp
  next
    case (Throw err st2)
    then have "carries st0 st2"
      using e [of "advance ?st"] t by (auto intro: carries_trans carries_advanceI)
    with Throw show ?thesis by simp
  qed simp_all
  have d: "frame st0 (call_function n name st1)"
    using t1 c [of st1 name] by (rule frame_via)
  have i: "frame st0 (integer ?st)"
    using t frame_integer [of ?st] by (rule frame_via)
  show ?thesis
    using a b d i t1 t
    by (simp add: Let_def id split: option.splits)
qed


lemma frame_term_loop_step:
  assumes f: "\<And>s. frame s (factor n s)" and l: "\<And>r s. frame s (term_loop n r s)"
  shows "frame st (term_loop (Suc n) r st)"
proof (cases "factor n (advance st)")
  case (Ok v st1)
  then have "carries st st1"
    using f [of "advance st"] by (auto intro: carries_advanceI)
  then have "frame st (term_loop n k st1)" for k
    using l [of st1 k] by (rule frame_via)
  with Ok show ?thesis by simp
next
  case (Throw e st1)
  then have "carries st st1"
    using f [of "advance st"] by (auto intro: carries_advanceI)
  with Throw show ?thesis by simp
qed simp_all

lemma frame_term_p_step:
  assumes f: "\<And>s. frame s (factor n s)" and l: "\<And>r s. frame s (term_loop n r s)"
  shows "frame st (term_p (Suc n) st)"
proof (cases "factor n st")
  case (Ok v st1)
  then have "carries st st1" using f [of st] by simp
  then have "frame st (term_loop n v st1)" using l [of st1 v] by (rule frame_via)
  with Ok show ?thesis by simp
next
  case (Throw e st1)
  then show ?thesis using f [of st] by simp
qed simp_all

lemma frame_expr_loop_step:
  assumes t: "\<And>s. frame s (term_p n s)" and l: "\<And>r s. frame s (expr_loop n r s)"
  shows "frame st (expr_loop (Suc n) r st)"
proof (cases "term_p n (advance st)")
  case (Ok v st1)
  then have "carries st st1"
    using t [of "advance st"] by (auto intro: carries_advanceI)
  then have "frame st (expr_loop n k st1)" for k
    using l [of st1 k] by (rule frame_via)
  with Ok show ?thesis by (simp add: Let_def)
next
  case (Throw e st1)
  then have "carries st st1"
    using t [of "advance st"] by (auto intro: carries_advanceI)
  with Throw show ?thesis by simp
qed simp_all

lemma frame_expr_step:
  assumes t: "\<And>s. frame s (term_p n s)" and l: "\<And>r s. frame s (expr_loop n r s)"
  shows "frame st (expr (Suc n) st)"
proof (cases "term_p n st")
  case (Ok v st1)
  then have "carries st st1" using t [of st] by simp
  then have "frame st (expr_loop n v st1)" using l [of st1 v] by (rule frame_via)
  with Ok show ?thesis by simp
next
  case (Throw e st1)
  then show ?thesis using t [of st] by simp
qed simp_all

lemma frame_call_args_step:
  assumes e: "\<And>s. frame s (expr n s)" and l: "\<And>ps as s. frame s (call_args n ps as s)"
  shows "frame st (call_args (Suc n) ps as st)"
proof (cases ps)
  case Nil
  then show ?thesis by simp
next
  case (Cons p ps')
  let ?s = "if as \<noteq> [] then advance st else st"
  show ?thesis
  proof (cases "expr n ?s")
    case (Ok v st1)
    then have "carries st st1"
      using e [of ?s] by (auto intro: carries_advanceI split: if_splits)
    then have "frame st (call_args n ps' (as @ [v]) st1)"
      using l [of st1 ps' "as @ [v]"] by (rule frame_via)
    with Ok Cons show ?thesis by simp
  next
    case (Throw err st1)
    then have "carries st st1"
      using e [of ?s] by (auto intro: carries_advanceI split: if_splits)
    with Throw Cons show ?thesis by simp
  qed (simp_all add: Cons)
qed

text \<open>
  Leaving a body puts back the saved buffer, cursor and variables; the body itself has
  kept the function and array tables.
\<close>

lemma leave_body_restores:
  assumes c: "cursor_ok st3" and p: "pos st3 \<le> length (input st3)"
    and b: "carries (enter_body func (bind_arguments func args st3)) st6"
  shows "leave_body (input (bind_arguments func args st3)) (pos (bind_arguments func args st3))
           (variables st3) st6 = Some st3"
proof -
  have "functions_tab st6 = functions_tab st3" "arrays st6 = arrays st3"
    using b by (simp_all add: carries_def same_tables_def enter_body_def bind_arguments_def)
  moreover have "str_at (input st3) (pos st3) = Some (current_char st3)"
    using c p by (auto simp: str_at_def cursor_ok_def)
  ultimately show ?thesis
    by (simp add: leave_body_def bind_arguments_def)
qed

lemma leave_body_carries:
  assumes b: "carries (enter_body func (bind_arguments func args st3)) st6"
    and l: "leave_body (input (bind_arguments func args st3)) (pos (bind_arguments func args st3))
           (variables st3) st6 = Some st7"
  shows "carries st3 st7"
proof -
  have "functions_tab st6 = functions_tab st3" "arrays st6 = arrays st3"
    using b by (simp_all add: carries_def same_tables_def enter_body_def bind_arguments_def)
  then show ?thesis
    using l
    by (auto simp: leave_body_def bind_arguments_def carries_def same_tables_def cursor_ok_def
        str_at_def split: option.splits if_splits)
qed

lemma frame_call_function_step:
  assumes e: "\<And>s. frame s (expr n s)" and l: "\<And>ps as s. frame s (call_args n ps as s)"
  shows "frame st (call_function (Suc n) name st)"
proof (cases "functions_tab st name")
  case None
  then show ?thesis by simp
next
  case (Some func)
  let ?st1 = "skip_whitespace st"
  have t1: "carries st ?st1" by (rule carries_skip_whitespace)
  show ?thesis
  proof (cases "call_args n (parameters func) [] (advance ?st1)")
    case (Ok args st2)
    then have t2: "carries st st2"
      using l [of "advance ?st1" "parameters func" "[]"]
      by (auto intro: carries_advanceI carries_skipI)
    let ?st3 = "advance st2"
    let ?st4 = "bind_arguments func args ?st3"
    let ?st5 = "enter_body func ?st4"
    have t3: "carries st ?st3"
      using t2 carries_advance carries_trans by blast
    have "frame st (case expr n ?st5 of
                         Ok result st6 \<Rightarrow>
                           (case leave_body (input ?st4) (pos ?st4) (variables ?st3) st6 of
                              None \<Rightarrow> Undefined StringOutOfBounds
                            | Some st7 \<Rightarrow> Ok result st7)
                       | Throw e st6 \<Rightarrow>
                           (case leave_body (input ?st4) (pos ?st4) (variables ?st3) st6 of
                              None \<Rightarrow> Undefined StringOutOfBounds
                            | Some st7 \<Rightarrow> Throw e st7)
                       | Undefined u \<Rightarrow> Undefined u
                       | OutOfFuel \<Rightarrow> OutOfFuel)"
    proof (cases "expr n ?st5")
      case (Ok result st6)
      then have "carries ?st5 st6" using e [of ?st5] by simp
      then show ?thesis
        using Ok t3 by (auto split: option.splits dest: leave_body_carries intro: carries_trans)
    next
      case (Throw err st6)
      then have "carries ?st5 st6" using e [of ?st5] by simp
      then show ?thesis
        using Throw t3 by (auto split: option.splits dest: leave_body_carries intro: carries_trans)
    qed simp_all
    with Ok Some t2 t1 show ?thesis
      by (simp add: Let_def)
  next
    case (Throw err st2)
    then have t2: "carries st st2"
      using l [of "advance ?st1" "parameters func" "[]"]
      by (auto intro: carries_advanceI carries_skipI)
    with Throw Some t1 show ?thesis
      by (simp add: Let_def)
  qed (simp_all add: Some Let_def t1)
qed

lemma frame_all:
  "(\<forall>st. frame st (factor n st)) \<and>
   (\<forall>r st. frame st (term_loop n r st)) \<and>
   (\<forall>st. frame st (term_p n st)) \<and>
   (\<forall>r st. frame st (expr_loop n r st)) \<and>
   (\<forall>st. frame st (expr n st)) \<and>
   (\<forall>ps as st. frame st (call_args n ps as st)) \<and>
   (\<forall>f st. frame st (call_function n f st))"
proof (induction n)
  case 0
  show ?case by simp
next
  case (Suc n)
  then show ?case
    by (intro conjI allI frame_factor_step frame_term_loop_step frame_term_p_step
        frame_expr_loop_step frame_expr_step frame_call_args_step frame_call_function_step)
      blast+
qed

lemma frame_expr: "frame st (expr n st)"
  using frame_all [of n] by blast

lemma frame_call_function: "frame st (call_function n f st)"
  using frame_all [of n] by blast

lemma frame_call_args: "frame st (call_args n ps as st)"
  using frame_all [of n] by blast


subsection \<open>Function calls\<close>

lemma cursor_ok_advance: "cursor_ok (advance st)"
  by (simp add: cursor_ok_def advance_def Let_def)

lemma cursor_on_char:
  "cursor_ok st \<Longrightarrow> current_char st \<noteq> CHR 0x00 \<Longrightarrow> pos st < length (input st)"
  by (auto simp: cursor_ok_def split: if_splits)

lemma caller_state:
  assumes a: "call_args n ps [] (advance st1) = Ok args st2"
    and c: "current_char st2 = CHR '')''"
  shows "cursor_ok (advance st2) \<and> pos (advance st2) \<le> length (input (advance st2)) \<and>
         carries st1 (advance st2)"
proof -
  have k: "carries (advance st1) st2"
    using frame_call_args [of "advance st1" n ps "[]"] a by simp
  then have "cursor_ok st2"
    using cursor_ok_advance by (simp add: carries_def)
  then have "pos st2 < length (input st2)"
    using c by (intro cursor_on_char) simp_all
  then have "pos (advance st2) \<le> length (input (advance st2))"
    by (simp add: advance_def Let_def)
  moreover have "carries st1 (advance st2)"
    using k carries_advance carries_trans by blast
  ultimately show ?thesis
    using cursor_ok_advance by blast
qed

lemma call_function_body:
  assumes f: "functions_tab st name = Some func"
    and o: "current_char (skip_whitespace st) = CHR ''(''"
    and a: "call_args n (parameters func) [] (advance (skip_whitespace st)) = Ok args st2"
    and c: "current_char st2 = CHR '')''"
  shows "call_function (Suc n) name st =
     (case expr n (enter_body func (bind_arguments func args (advance st2))) of
        Ok v st6 \<Rightarrow> Ok v (advance st2)
      | Throw e st6 \<Rightarrow> Throw e (advance st2)
      | Undefined u \<Rightarrow> Undefined u
      | OutOfFuel \<Rightarrow> OutOfFuel)"
proof -
  let ?st3 = "advance st2"
  let ?st5 = "enter_body func (bind_arguments func args ?st3)"
  have k: "cursor_ok ?st3" "pos ?st3 \<le> length (input ?st3)"
    using caller_state [OF a c] by simp_all
  have r: "carries ?st5 st6 \<Longrightarrow>
    leave_body (input (bind_arguments func args ?st3)) (pos (bind_arguments func args ?st3))
      (variables ?st3) st6 = Some ?st3" for st6
    using k by (rule leave_body_restores)
  show ?thesis
  proof (cases "expr n ?st5")
    case (Ok v st6)
    then have "carries ?st5 st6" using frame_expr [of ?st5 n] by simp
    with Ok f o a c show ?thesis by (simp add: Let_def r)
  next
    case (Throw e st6)
    then have "carries ?st5 st6" using frame_expr [of ?st5 n] by simp
    with Throw f o a c show ?thesis by (simp add: Let_def r)
  next
    case (Undefined u)
    with f o a c show ?thesis by (simp add: Let_def)
  next
    case OutOfFuel
    with f o a c show ?thesis by (simp add: Let_def)
  qed
qed

lemma caller_tables:
  assumes a: "call_args n ps [] (advance (skip_whitespace st)) = Ok args st2"
    and c: "current_char st2 = CHR '')''"
  shows "same_tables st (advance st2)"
  using caller_state [OF a c] carries_skip_whitespace [of st] carries_trans
  unfolding carries_def by blast

lemma call_args_length:
  "call_args n ps acc st = Ok args st2 \<Longrightarrow> length args = length acc + length ps"
proof (induction n arbitrary: ps acc st)
  case 0
  then show ?case by simp
next
  case (Suc n)
  show ?case
  proof (cases ps)
    case Nil
    with Suc.prems show ?thesis by simp
  next
    case (Cons p ps')
    with Suc.prems obtain v st1 where "call_args n ps' (acc @ [v]) st1 = Ok args st2"
      by (auto split: if_splits outcome.splits)
    from Suc.IH [OF this] Cons show ?thesis by simp
  qed
qed

lemma bind_params_other: "x \<notin> set ps \<Longrightarrow> bind_params ps as m x = m x"
  by (induction ps as m rule: bind_params.induct) auto

lemma bind_params_last:
  "i < length ps \<Longrightarrow> length as = length ps \<Longrightarrow> ps ! i \<notin> set (drop (Suc i) ps) \<Longrightarrow>
   bind_params ps as m (ps ! i) = Some (as ! i)"
proof (induction ps as m arbitrary: i rule: bind_params.induct)
  case (1 p ps a as m)
  show ?case
  proof (cases i)
    case 0
    with 1 show ?thesis by (simp add: bind_params_other)
  next
    case (Suc j)
    with "1.prems" have "j < length ps" "length as = length ps"
      "ps ! j \<notin> set (drop (Suc j) ps)"
      by simp_all
    from "1.IH" [OF this]
    have "bind_params (p # ps) (a # as) m (ps ! j) = Some (as ! j)"
      by (simp only: bind_params.simps)
    with Suc show ?thesis by (simp only: nth_Cons_Suc)
  qed
qed simp_all


lemma scan_while_step:
  "current_char st \<noteq> CHR 0x00 \<Longrightarrow> P (current_char st) \<Longrightarrow>
   scan_while P acc st = scan_while P (acc @ [current_char st]) (advance st)"
  by (subst scan_while.simps) simp

lemma scan_while_stop:
  "current_char st = CHR 0x00 \<or> \<not> P (current_char st) \<Longrightarrow> scan_while P acc st = (acc, st)"
  by (subst scan_while.simps) auto

lemmas cursor_eval = set_input_def advance_def skip_whitespace_def identifier_p_def
  integer_def scan_while_step scan_while_stop isalpha_def isalnum_def Let_def

lemmas call_eval = enter_body_def bind_arguments_def leave_body_def str_at_def fresh_def

text \<open>
  C6. When the body of a call returns a value, \<open>call_function\<close> returns that value in
  the state the caller was in when it had read the closing parenthesis of the call:
  same buffer, cursor just behind the call, and the tables of the state in which the
  call began. The body is read from its first character as one expression, in a state
  where each parameter holds its argument (for a name listed twice, the argument of its
  last occurrence), whatever the caller had under that name, and every other name holds
  what the caller had.
\<close>

theorem call_completion:
  assumes "functions_tab st name = Some func"
    and "current_char (skip_whitespace st) = CHR ''(''"
    and "call_args n (parameters func) [] (advance (skip_whitespace st)) = Ok args st2"
    and "current_char st2 = CHR '')''"
    and "expr n (enter_body func (bind_arguments func args (advance st2))) = Ok v st6"
  shows "call_function (Suc n) name st = Ok v (advance st2) \<and>
         input (advance st2) = input st \<and> pos (advance st2) = Suc (pos st2) \<and>
         cursor_ok (advance st2) \<and> variables (advance st2) = variables st \<and>
         functions_tab (advance st2) = functions_tab st \<and> arrays (advance st2) = arrays st \<and>
         input (enter_body func (bind_arguments func args (advance st2))) = body func \<and>
         pos (enter_body func (bind_arguments func args (advance st2))) = 0 \<and>
         (\<forall>i < length (parameters func).
            parameters func ! i \<notin> set (drop (Suc i) (parameters func)) \<longrightarrow>
            variables (enter_body func (bind_arguments func args (advance st2)))
              (parameters func ! i) = Some (args ! i)) \<and>
         (\<forall>x. x \<notin> set (parameters func) \<longrightarrow>
            variables (enter_body func (bind_arguments func args (advance st2))) x =
              variables st x)"
proof -
  let ?body = "enter_body func (bind_arguments func args (advance st2))"
  have r: "call_function (Suc n) name st = Ok v (advance st2)"
    using call_function_body [OF assms(1-4)] assms(5) by simp
  have t: "same_tables st (advance st2)"
    using assms(3,4) by (rule caller_tables)
  have p: "pos (advance st2) = Suc (pos st2)"
    by (simp add: advance_def Let_def)
  have l: "length args = length (parameters func)"
    using call_args_length [OF assms(3)] by simp
  have vb: "variables ?body = bind_params (parameters func) args (variables st)"
    using t by (simp add: enter_body_def bind_arguments_def same_tables_def)
  have b1: "\<forall>i < length (parameters func).
            parameters func ! i \<notin> set (drop (Suc i) (parameters func)) \<longrightarrow>
            variables ?body (parameters func ! i) = Some (args ! i)"
    using l by (simp add: vb bind_params_last)
  have b2: "\<forall>x. x \<notin> set (parameters func) \<longrightarrow> variables ?body x = variables st x"
    by (simp add: vb bind_params_other)
  have b3: "input ?body = body func" "pos ?body = 0"
    by (simp_all add: enter_body_def)
  from t have t': "input (advance st2) = input st" "variables (advance st2) = variables st"
    "functions_tab (advance st2) = functions_tab st" "arrays (advance st2) = arrays st"
    by (simp_all add: same_tables_def)
  show ?thesis
    using r t' p b1 b2 b3 cursor_ok_advance [of st2] by blast
qed

theorem call_completion_witness:
  "call_function (Suc (Suc (Suc (Suc (Suc 0))))) ''f''
     ((set_input ''f(5)'' square_env)\<lparr>pos := 1, current_char := CHR ''(''\<rparr>) =
     Ok 25 ((set_input ''f(5)'' square_env)\<lparr>pos := 4, current_char := CHR 0x00\<rparr>) \<and>
   variables ((set_input ''f(5)'' square_env)\<lparr>pos := 4, current_char := CHR 0x00\<rparr>) ''x'' =
     Some 3 \<and>
   variables (enter_body \<lparr>parameters = [''x''], body = ''x*x''\<rparr>
     (bind_arguments \<lparr>parameters = [''x''], body = ''x*x''\<rparr> [5]
        ((set_input ''f(5)'' square_env)\<lparr>pos := 4, current_char := CHR 0x00\<rparr>))) ''x'' = Some 5"
proof -
  let ?n = "Suc (Suc (Suc (Suc 0)))"
  let ?st = "(set_input ''f(5)'' square_env)\<lparr>pos := 1, current_char := CHR ''(''\<rparr>"
  let ?st2 = "(set_input ''f(5)'' square_env)\<lparr>pos := 3, current_char := CHR '')''\<rparr>"
  let ?f = "\<lparr>parameters = [''x''], body = ''x*x''\<rparr>"
  let ?st6 = "(set_input ''x*x'' square_env)\<lparr>pos := 3, current_char := CHR 0x00,
    variables := [''x'' \<mapsto> 5]\<rparr>"
  have h1: "functions_tab ?st ''f'' = Some ?f"
    by (simp add: set_input_def square_env_def)
  have h2: "current_char (skip_whitespace ?st) = CHR ''(''"
    by (simp add: cursor_eval stoi_eval)
  have h3: "call_args ?n (parameters ?f) [] (advance (skip_whitespace ?st)) = Ok [5] ?st2"
    by (simp add: cursor_eval stoi_eval)
  have h4: "current_char ?st2 = CHR '')''"
    by simp
  have h5: "expr ?n (enter_body ?f (bind_arguments ?f [5] (advance ?st2))) = Ok 25 ?st6"
    by (simp add: cursor_eval stoi_eval call_eval square_env_def)
  let ?body = "enter_body ?f (bind_arguments ?f [5] (advance ?st2))"
  note T = call_completion [OF h1 h2 h3 h4 h5]
  have a: "advance ?st2 = (set_input ''f(5)'' square_env)\<lparr>pos := 4, current_char := CHR 0x00\<rparr>"
    by (simp add: cursor_eval)
  from T have r: "call_function (Suc ?n) ''f'' ?st = Ok 25 (advance ?st2)"
    by (rule conjunct1)
  from T have v: "variables (advance ?st2) = variables ?st"
    by blast
  from T have "\<forall>i < length (parameters ?f).
      parameters ?f ! i \<notin> set (drop (Suc i) (parameters ?f)) \<longrightarrow>
      variables ?body (parameters ?f ! i) = Some ([5] ! i)"
    by blast
  from this [rule_format, of 0] have b: "variables ?body ''x'' = Some 5"
    by simp
  have x: "variables ?st ''x'' = Some 3"
    by (simp add: set_input_def square_env_def)
  from r v b x show ?thesis
    by (simp only: a)
qed


subsection \<open>Statements and expressions\<close>

lemma isalpha_not_isdigit: "isalpha c \<Longrightarrow> \<not> isdigit c"
  by (auto simp: isalpha_def isdigit_def Let_def)

text \<open>
  The tests for \<^verbatim>\<open>'f'\<close> and \<^verbatim>\<open>'a'\<close> in \<open>statement\<close> come after the test
  for a letter, so the two declaration branches are never taken: a statement that does
  not begin with a letter is the end of the input or an error, and no statement changes
  the function table or the set of arrays.
\<close>

lemma declarations_unreachable:
  assumes "\<not> isalpha (current_char (skip_whitespace st))"
  shows "statement n st =
     (if current_char (skip_whitespace st) = CHR 0x00 then Ok () (skip_whitespace st)
      else Throw (SyntaxError ''Unknown statement'') (skip_whitespace st))"
proof -
  have "isalpha (CHR ''f'')" "isalpha (CHR ''a'')"
    by (simp_all add: isalpha_def)
  with assms have "current_char (skip_whitespace st) \<noteq> CHR ''f''"
    "current_char (skip_whitespace st) \<noteq> CHR ''a''"
    by auto
  with assms show ?thesis
    by (simp add: statement_def Let_def)
qed

lemma tables_of_carries:
  "carries st st' \<Longrightarrow> functions_tab st' = functions_tab st \<and> arrays st' = arrays st"
  by (simp add: carries_def same_tables_def)

lemma expr_keeps_declarations:
  "expr n st = Ok v st' \<or> expr n st = Throw e st' \<Longrightarrow>
   functions_tab st' = functions_tab st \<and> arrays st' = arrays st"
  using frame_expr [of st n] by (auto simp: tables_of_carries)

lemma call_keeps_declarations:
  "call_function n f st = Ok v st' \<or> call_function n f st = Throw e st' \<Longrightarrow>
   functions_tab st' = functions_tab st \<and> arrays st' = arrays st"
  using frame_call_function [of st n f] by (auto simp: tables_of_carries)

lemma statement_keeps_declarations:
  assumes "statement n st0 = Ok u st' \<or> statement n st0 = Throw e st'"
  shows "functions_tab st' = functions_tab st0 \<and> dom (arrays st') = dom (arrays st0)"
proof -
  let ?st = "skip_whitespace st0"
  obtain ident st1 where id: "identifier_p ?st = (ident, st1)"
    by (cases "identifier_p ?st")
  let ?st2 = "skip_whitespace st1"
  have t: "functions_tab ?st = functions_tab st0 \<and> arrays ?st = arrays st0"
    using carries_skip_whitespace by (rule tables_of_carries)
  have t2: "functions_tab ?st2 = functions_tab st0 \<and> arrays ?st2 = arrays st0"
    using tables_of_carries [OF carries_identifier [OF id]]
      tables_of_carries [OF carries_skip_whitespace [of st1]] t by simp
  have adv: "functions_tab (advance s) = functions_tab s \<and> arrays (advance s) = arrays s" for s
    using carries_advance by (rule tables_of_carries)
  have skp: "functions_tab (skip_whitespace s) = functions_tab s \<and>
             arrays (skip_whitespace s) = arrays s" for s
    using carries_skip_whitespace by (rule tables_of_carries)
  have ex: "expr n s = Ok v s' \<Longrightarrow>
      functions_tab s' = functions_tab s \<and> arrays s' = arrays s" for s v s'
    using expr_keeps_declarations by blast
  have et: "expr n s = Throw x s' \<Longrightarrow>
      functions_tab s' = functions_tab s \<and> arrays s' = arrays s" for s x s'
    using expr_keeps_declarations by blast
  have cx: "call_function n f s = Ok v s' \<Longrightarrow>
      functions_tab s' = functions_tab s \<and> arrays s' = arrays s" for f s v s'
    using call_keeps_declarations by blast
  have ct: "call_function n f s = Throw x s' \<Longrightarrow>
      functions_tab s' = functions_tab s \<and> arrays s' = arrays s" for f s x s'
    using call_keeps_declarations by blast
  show ?thesis
  proof (cases "isalpha (current_char ?st) \<and> current_char ?st \<noteq> CHR 0x00")
    case False
    then show ?thesis
      using assms t declarations_unreachable [of st0 n]
      by (auto simp: statement_def Let_def split: if_splits)
  next
    case True
    with assms id t2 adv skp show ?thesis
      by (auto simp: statement_def Let_def split: if_splits outcome.splits option.splits
          dest!: ex et cx ct)
  qed
qed

lemma program_keeps_declarations:
  "program_p n st = Ok u st' \<or> program_p n st = Throw e st' \<Longrightarrow>
   functions_tab st' = functions_tab st \<and> dom (arrays st') = dom (arrays st)"
proof (induction n arbitrary: st)
  case 0
  then show ?case by simp
next
  case (Suc n)
  show ?case
  proof (cases "current_char st \<noteq> CHR 0x00")
    case False
    with Suc.prems show ?thesis by auto
  next
    case True
    show ?thesis
    proof (cases "statement n st")
      case (Ok w st1)
      then have k: "functions_tab st1 = functions_tab st \<and> dom (arrays st1) = dom (arrays st)"
        using statement_keeps_declarations by blast
      let ?st2 = "skip_whitespace st1"
      have k2: "functions_tab ?st2 = functions_tab st \<and> dom (arrays ?st2) = dom (arrays st)"
        using k tables_of_carries [OF carries_skip_whitespace [of st1]] by simp
      have k3: "functions_tab (advance ?st2) = functions_tab st \<and>
                dom (arrays (advance ?st2)) = dom (arrays st)"
        using k2 tables_of_carries [OF carries_advance [of ?st2]] by simp
      from Suc.prems True Ok
      consider "program_p n (advance ?st2) = Ok u st' \<or> program_p n (advance ?st2) = Throw e st'"
        | "program_p n ?st2 = Ok u st' \<or> program_p n ?st2 = Throw e st'"
        | "st' = ?st2"
        by (auto simp: Let_def split: if_splits)
      then show ?thesis
      proof cases
        case 1
        from Suc.IH [OF this] k3 show ?thesis by simp
      next
        case 2
        from Suc.IH [OF this] k2 show ?thesis by simp
      next
        case 3
        with k2 show ?thesis by simp
      qed
    next
      case (Throw x st1)
      then have "functions_tab st1 = functions_tab st \<and> dom (arrays st1) = dom (arrays st)"
        using statement_keeps_declarations by blast
      with Suc.prems True Throw show ?thesis by auto
    next
      case (Undefined x)
      with Suc.prems True show ?thesis by auto
    next
      case OutOfFuel
      with Suc.prems True show ?thesis by auto
    qed
  qed
qed

text \<open>So no text given to a new interpreter ever declares a function or an array.\<close>

lemma nothing_is_ever_declared:
  "interpret_p n txt fresh = Ok u st' \<or> interpret_p n txt fresh = Throw e st' \<Longrightarrow>
   functions_tab st' = Map.empty \<and> arrays st' = Map.empty"
  using program_keeps_declarations [of n "set_input txt fresh" u st' e]
  by (simp add: interpret_p_def set_input_def fresh_def)

text \<open>
  Were the branch for \<^verbatim>\<open>'f'\<close> reached, its \<^verbatim>\<open>advance()\<close> would drop the
  first letter and the keyword read would be \<^verbatim>\<open>unction\<close>.
\<close>

lemma declaration_branch_misreads_keyword:
  "declare_function (set_input ''function f(x){x*x}'' st) =
     Throw (SyntaxError ''Unknown keyword: unction'')
       (st\<lparr>input := ''function f(x){x*x}'', pos := 8, current_char := CHR '' ''\<rparr>)"
  by (simp add: declare_function_def cursor_eval stoi_eval)

text \<open>
  C1. The statement \<^verbatim>\<open>function f(x){x*x}\<close> is not a declaration to \<open>statement\<close>:
  it reads the identifier \<^verbatim>\<open>function\<close>, finds \<^verbatim>\<open>f\<close> where it expects
  \<^verbatim>\<open>=\<close>, \<^verbatim>\<open>(\<close> or \<^verbatim>\<open>[\<close>, and throws. The run stops there, with the function
  table as it was, and in a new interpreter a call of \<^verbatim>\<open>f\<close> finds no function.
\<close>

theorem function_declaration_rejected:
  "interpret_p (Suc n) ''function f(x){x*x}'' st =
     Throw (SyntaxError ''Invalid statement'')
       (st\<lparr>input := ''function f(x){x*x}'', pos := 9, current_char := CHR ''f''\<rparr>) \<and>
   interpret_p (Suc n) ''function f(x){x*x}; y = f(5)'' st =
     Throw (SyntaxError ''Invalid statement'')
       (st\<lparr>input := ''function f(x){x*x}; y = f(5)'', pos := 9, current_char := CHR ''f''\<rparr>) \<and>
   interpret_p (Suc (Suc n)) ''f(5)'' fresh =
     Throw (UndefinedSymbol ''Undefined function: f'')
       (fresh\<lparr>input := ''f(5)'', pos := 1, current_char := CHR ''(''\<rparr>)"
  by (simp add: interpret_p_def statement_def cursor_eval stoi_eval fresh_def)

text \<open>
  C4. \<open>term_loop\<close> divides without looking at the divisor: \<^verbatim>\<open>1/0\<close> is a division
  by zero in C++, which throws nothing. There is no modulus operator: in
  \<^verbatim>\<open>x = 7%0\<close> the expression ends before \<^verbatim>\<open>%\<close>, \<open>x\<close> becomes 7, and the run
  stops on a syntax error.
\<close>

theorem division_by_zero_unguarded:
  "expr (Suc (Suc (Suc (Suc n)))) (set_input ''1/0'' st) = Undefined DivisionByZero \<and>
   interpret_p (Suc (Suc (Suc (Suc (Suc n))))) ''x = 1/0'' st = Undefined DivisionByZero \<and>
   interpret_p (Suc (Suc (Suc (Suc n)))) ''x = 7%0'' st =
     Throw (SyntaxError ''Expected ';' after statement'')
       (st\<lparr>input := ''x = 7%0'', pos := 5, current_char := CHR ''%'',
           variables := (variables st)(''x'' \<mapsto> 7)\<rparr>)"
  by (simp add: interpret_p_def statement_def cursor_eval stoi_eval)

lemma zero_divisor_undefined:
  "current_char st = CHR ''/'' \<Longrightarrow> factor n (advance st) = Ok 0 st1 \<Longrightarrow>
   term_loop (Suc n) r st = Undefined DivisionByZero"
  by simp

text \<open>
  C9. White space is skipped before a factor only, not before an operator:
  \<^verbatim>\<open>2 + 3 * 4\<close> evaluates to 2 with the cursor left on the blank behind \<^verbatim>\<open>2\<close>,
  and \<^verbatim>\<open>(2 + 3) * 4\<close> fails on that blank, where \<open>factor\<close> expects the closing
  parenthesis. As a statement, \<^verbatim>\<open>x = 2 + 3 * 4\<close> sets \<open>x\<close> to 2 and the run then
  stops on a syntax error.
\<close>

theorem blank_before_operator_ends_expression:
  "expr (Suc (Suc (Suc n))) (set_input ''2 + 3 * 4'' st) =
     Ok 2 (st\<lparr>input := ''2 + 3 * 4'', pos := 1, current_char := CHR '' ''\<rparr>) \<and>
   expr (Suc (Suc (Suc (Suc (Suc (Suc n)))))) (set_input ''(2 + 3) * 4'' st) =
     Throw (SyntaxError (''Expected ')'' @ [CHR 0x27]))
       (st\<lparr>input := ''(2 + 3) * 4'', pos := 2, current_char := CHR '' ''\<rparr>) \<and>
   interpret_p (Suc (Suc (Suc (Suc n)))) ''x = 2 + 3 * 4'' st =
     Throw (SyntaxError ''Expected ';' after statement'')
       (st\<lparr>input := ''x = 2 + 3 * 4'', pos := 6, current_char := CHR ''+'',
           variables := (variables st)(''x'' \<mapsto> 2)\<rparr>)"
  by (simp add: interpret_p_def statement_def cursor_eval stoi_eval)

text \<open>Written without blanks, the two expressions have the values the grammar gives them.\<close>

lemma precedence_without_blanks:
  "expr (Suc (Suc (Suc (Suc (Suc n))))) (set_input ''2+3*4'' st) =
     Ok 14 (st\<lparr>input := ''2+3*4'', pos := 5, current_char := CHR 0x00\<rparr>)"
  "expr (Suc (Suc (Suc (Suc (Suc (Suc (Suc n))))))) (set_input ''(2+3)*4'' st) =
     Ok 20 (st\<lparr>input := ''(2+3)*4'', pos := 7, current_char := CHR 0x00\<rparr>)"
  "expr (Suc (Suc (Suc (Suc (Suc n))))) (set_input ''8-3-2'' st) =
     Ok 3 (st\<lparr>input := ''8-3-2'', pos := 5, current_char := CHR 0x00\<rparr>)"
  "expr (Suc (Suc (Suc (Suc (Suc (Suc n)))))) (set_input ''8/4/2'' st) =
     Ok 1 (st\<lparr>input := ''8/4/2'', pos := 5, current_char := CHR 0x00\<rparr>)"
  by (simp_all add: cursor_eval stoi_eval)



text \<open>
  C8. In \<open>factor\<close>, an identifier followed by \<^verbatim>\<open>[\<close>, an index expression and
  \<^verbatim>\<open>]\<close> reads the array of that name: the element at the index when the index is
  in \<open>[0, len)\<close>, \<open>OutOfBounds\<close> when it is not, \<open>UndefinedSymbol\<close> when there is no
  such array. An identifier not followed by \<^verbatim>\<open>[\<close> that names neither a variable
  nor a function fails with \<open>UndefinedSymbol\<close>. With an array \<open>a\<close> of three elements,
  \<^verbatim>\<open>a[2] = 7; y = a[2]\<close> stores 7 in the last element and then in \<open>y\<close>.
\<close>

theorem array_access:
  "(isalpha (current_char (skip_whitespace st)) \<and>
    identifier_p (skip_whitespace st) = (name, st1) \<and> current_char st1 = CHR ''['' \<and>
    expr n (advance st1) = Ok index st2 \<and> current_char st2 = CHR '']'' \<longrightarrow>
    factor (Suc n) st =
      (case arrays st name of
         Some xs \<Rightarrow>
           if 0 \<le> index \<and> index < int (length xs) then Ok (xs ! nat index) (advance st2)
           else Throw OutOfBounds (advance st2)
       | None \<Rightarrow> Throw (UndefinedSymbol (''Undefined array: '' @ name)) (advance st2))) \<and>
   (isalpha (current_char (skip_whitespace st)) \<and>
    identifier_p (skip_whitespace st) = (name, st1) \<and> current_char st1 \<noteq> CHR ''['' \<and>
    variables st name = None \<and> functions_tab st name = None \<longrightarrow>
    factor (Suc n) st =
      Throw (UndefinedSymbol (''Undefined variable or function: '' @ name)) st1) \<and>
   (arrays st ''a'' = Some [x0, x1, x2] \<longrightarrow>
    interpret_p (Suc (Suc (Suc (Suc (Suc (Suc (Suc (Suc (Suc m))))))))) ''a[2] = 7; y = a[2]'' st =
      Ok () (st\<lparr>input := ''a[2] = 7; y = a[2]'', pos := 18, current_char := CHR 0x00,
                variables := (variables st)(''y'' \<mapsto> 7),
                arrays := (arrays st)(''a'' \<mapsto> [x0, x1, 7])\<rparr>))"
proof (intro conjI impI)
  assume h: "isalpha (current_char (skip_whitespace st)) \<and>
    identifier_p (skip_whitespace st) = (name, st1) \<and> current_char st1 = CHR ''['' \<and>
    expr n (advance st1) = Ok index st2 \<and> current_char st2 = CHR '']''"
  then have d: "\<not> isdigit (current_char (skip_whitespace st))"
    by (simp add: isalpha_not_isdigit)
  have "carries (skip_whitespace st) st1"
    using h by (intro carries_identifier) simp
  moreover have "carries (advance st1) st2"
    using h frame_expr [of "advance st1" n] by simp
  ultimately have "arrays (advance st2) = arrays st"
    using tables_of_carries [OF carries_skip_whitespace [of st]]
      tables_of_carries [OF carries_advance [of st1]]
      tables_of_carries [OF carries_advance [of st2]]
    by (simp add: tables_of_carries)
  with h d show "factor (Suc n) st =
      (case arrays st name of
         Some xs \<Rightarrow>
           if 0 \<le> index \<and> index < int (length xs) then Ok (xs ! nat index) (advance st2)
           else Throw OutOfBounds (advance st2)
       | None \<Rightarrow> Throw (UndefinedSymbol (''Undefined array: '' @ name)) (advance st2))"
    by (auto simp: Let_def split: option.splits)
next
  assume h: "isalpha (current_char (skip_whitespace st)) \<and>
    identifier_p (skip_whitespace st) = (name, st1) \<and> current_char st1 \<noteq> CHR ''['' \<and>
    variables st name = None \<and> functions_tab st name = None"
  then have d: "\<not> isdigit (current_char (skip_whitespace st))"
    by (simp add: isalpha_not_isdigit)
  have "carries (skip_whitespace st) st1"
    using h by (intro carries_identifier) simp
  then have "same_tables st st1"
    using carries_skip_whitespace [of st] carries_trans carries_def by blast
  then have "variables st1 name = None" "functions_tab st1 name = None"
    using h by (simp_all add: same_tables_def)
  with h d show "factor (Suc n) st =
      Throw (UndefinedSymbol (''Undefined variable or function: '' @ name)) st1"
    by (simp add: Let_def)
next
  assume "arrays st ''a'' = Some [x0, x1, x2]"
  then show "interpret_p (Suc (Suc (Suc (Suc (Suc (Suc (Suc (Suc (Suc m))))))))) ''a[2] = 7; y = a[2]'' st =
      Ok () (st\<lparr>input := ''a[2] = 7; y = a[2]'', pos := 18, current_char := CHR 0x00,
                variables := (variables st)(''y'' \<mapsto> 7),
                arrays := (arrays st)(''a'' \<mapsto> [x0, x1, 7])\<rparr>)"
    by (simp add: interpret_p_def statement_def cursor_eval stoi_eval)
qed


theorem array_access_witness:
  "factor (Suc (Suc (Suc (Suc 0)))) (set_input ''a[1]'' array_env) =
     Ok 5 ((set_input ''a[1]'' array_env)\<lparr>pos := 4, current_char := CHR 0x00\<rparr>) \<and>
   factor (Suc (Suc (Suc (Suc 0)))) (set_input ''a[3]'' array_env) =
     Throw OutOfBounds ((set_input ''a[3]'' array_env)\<lparr>pos := 4, current_char := CHR 0x00\<rparr>) \<and>
   factor (Suc 0) (set_input ''b'' array_env) =
     Throw (UndefinedSymbol ''Undefined variable or function: b'')
       ((set_input ''b'' array_env)\<lparr>pos := 1, current_char := CHR 0x00\<rparr>) \<and>
   interpret_p (Suc (Suc (Suc (Suc (Suc (Suc (Suc (Suc (Suc 0))))))))) ''a[2] = 7; y = a[2]''
       array_env =
     Ok () (array_env\<lparr>input := ''a[2] = 7; y = a[2]'', pos := 18, current_char := CHR 0x00,
                variables := (variables array_env)(''y'' \<mapsto> 7),
                arrays := (arrays array_env)(''a'' \<mapsto> [4, 5, 7])\<rparr>)"
proof -
  let ?n = "Suc (Suc (Suc 0))"
  let ?s1 = "set_input ''a[1]'' array_env"
  let ?s3 = "set_input ''a[3]'' array_env"
  let ?sb = "set_input ''b'' array_env"
  have ar: "arrays ?s1 ''a'' = Some [4, 5, 6]" "arrays ?s3 ''a'' = Some [4, 5, 6]"
    "arrays array_env ''a'' = Some [4, 5, 6]"
    by (simp_all add: set_input_def array_env_def fresh_def)
  have h1: "isalpha (current_char (skip_whitespace ?s1)) \<and>
    identifier_p (skip_whitespace ?s1) = (''a'', ?s1\<lparr>pos := 1, current_char := CHR ''[''\<rparr>) \<and>
    current_char (?s1\<lparr>pos := 1, current_char := CHR ''[''\<rparr>) = CHR ''['' \<and>
    expr ?n (advance (?s1\<lparr>pos := 1, current_char := CHR ''[''\<rparr>)) =
      Ok 1 (?s1\<lparr>pos := 3, current_char := CHR '']''\<rparr>) \<and>
    current_char (?s1\<lparr>pos := 3, current_char := CHR '']''\<rparr>) = CHR '']''"
    by (simp add: cursor_eval stoi_eval)
  have h3: "isalpha (current_char (skip_whitespace ?s3)) \<and>
    identifier_p (skip_whitespace ?s3) = (''a'', ?s3\<lparr>pos := 1, current_char := CHR ''[''\<rparr>) \<and>
    current_char (?s3\<lparr>pos := 1, current_char := CHR ''[''\<rparr>) = CHR ''['' \<and>
    expr ?n (advance (?s3\<lparr>pos := 1, current_char := CHR ''[''\<rparr>)) =
      Ok 3 (?s3\<lparr>pos := 3, current_char := CHR '']''\<rparr>) \<and>
    current_char (?s3\<lparr>pos := 3, current_char := CHR '']''\<rparr>) = CHR '']''"
    by (simp add: cursor_eval stoi_eval)
  have hb: "isalpha (current_char (skip_whitespace ?sb)) \<and>
    identifier_p (skip_whitespace ?sb) = (''b'', ?sb\<lparr>pos := 1, current_char := CHR 0x00\<rparr>) \<and>
    current_char (?sb\<lparr>pos := 1, current_char := CHR 0x00\<rparr>) \<noteq> CHR ''['' \<and>
    variables ?sb ''b'' = None \<and> functions_tab ?sb ''b'' = None"
    by (simp add: cursor_eval stoi_eval array_env_def fresh_def)
  have a1: "advance (?s1\<lparr>pos := 3, current_char := CHR '']''\<rparr>) =
      ?s1\<lparr>pos := 4, current_char := CHR 0x00\<rparr>"
    and a3: "advance (?s3\<lparr>pos := 3, current_char := CHR '']''\<rparr>) =
      ?s3\<lparr>pos := 4, current_char := CHR 0x00\<rparr>"
    by (simp_all add: cursor_eval)
  from array_access [THEN conjunct1, rule_format, OF h1] ar(1) a1
  have r1: "factor (Suc ?n) ?s1 = Ok 5 (?s1\<lparr>pos := 4, current_char := CHR 0x00\<rparr>)"
    by simp
  from array_access [THEN conjunct1, rule_format, OF h3] ar(2) a3
  have r3: "factor (Suc ?n) ?s3 = Throw OutOfBounds (?s3\<lparr>pos := 4, current_char := CHR 0x00\<rparr>)"
    by simp
  from array_access [THEN conjunct2, THEN conjunct1, rule_format, OF hb]
  have rb: "factor (Suc 0) ?sb =
     Throw (UndefinedSymbol ''Undefined variable or function: b'')
       (?sb\<lparr>pos := 1, current_char := CHR 0x00\<rparr>)"
    by simp
  from array_access [THEN conjunct2, THEN conjunct2, rule_format, OF ar(3)]
  have rw: "interpret_p (Suc (Suc (Suc (Suc (Suc (Suc (Suc (Suc (Suc 0)))))))))
      ''a[2] = 7; y = a[2]'' array_env =
     Ok () (array_env\<lparr>input := ''a[2] = 7; y = a[2]'', pos := 18, current_char := CHR 0x00,
                variables := (variables array_env)(''y'' \<mapsto> 7),
                arrays := (arrays array_env)(''a'' \<mapsto> [4, 5, 7])\<rparr>)" .
  from r1 r3 rb rw show ?thesis
    by (simp only: simp_thms)
qed

subsection \<open>A failing call\<close>





subsection \<open>The bound of the evaluator\<close>

text \<open>
  The bound only cuts evaluation off: a result obtained within a bound is the result
  within every larger bound.
\<close>

lemmas eval_simps = factor.simps term_loop.simps term_p.simps expr_loop.simps expr.simps
  call_args.simps call_function.simps

lemma more_fuel_factor_step:
  assumes e: "\<And>s. expr n s \<noteq> OutOfFuel \<Longrightarrow> expr (Suc n) s = expr n s"
    and c: "\<And>f s. call_function n f s \<noteq> OutOfFuel \<Longrightarrow> call_function (Suc n) f s = call_function n f s"
    and d: "factor (Suc n) st \<noteq> OutOfFuel"
  shows "factor (Suc (Suc n)) st = factor (Suc n) st"
proof -
  let ?st = "skip_whitespace st"
  obtain name st1 where id: "identifier_p ?st = (name, st1)" by (cases "identifier_p ?st")
  have 1: "expr (Suc n) (advance st1) = expr n (advance st1)"
    if "\<not> isdigit (current_char ?st)" "isalpha (current_char ?st)" "current_char st1 = CHR ''[''"
    using d that id by (intro e) (auto simp: Let_def split: outcome.splits)
  have 2: "call_function (Suc n) name st1 = call_function n name st1"
    if "\<not> isdigit (current_char ?st)" "isalpha (current_char ?st)" "current_char st1 \<noteq> CHR ''[''"
      "variables st1 name = None" "functions_tab st1 name \<noteq> None"
    using d that id by (intro c) (auto simp: Let_def split: outcome.splits)
  have 3: "expr (Suc n) (advance ?st) = expr n (advance ?st)"
    if "\<not> isdigit (current_char ?st)" "\<not> isalpha (current_char ?st)" "current_char ?st = CHR ''(''"
    using d that by (intro e) (auto simp: Let_def split: outcome.splits)
  show ?thesis
    apply (subst factor.simps(2) [of "Suc n" st])
    apply (subst factor.simps(2) [of n st])
    using 1 2 3 id
    apply (simp del: eval_simps add: Let_def split: option.splits)
    done
qed


lemma more_fuel_term_loop_step:
  assumes f: "\<And>s. factor n s \<noteq> OutOfFuel \<Longrightarrow> factor (Suc n) s = factor n s"
    and l: "\<And>r s. term_loop n r s \<noteq> OutOfFuel \<Longrightarrow> term_loop (Suc n) r s = term_loop n r s"
    and d: "term_loop (Suc n) r st \<noteq> OutOfFuel"
  shows "term_loop (Suc (Suc n)) r st = term_loop (Suc n) r st"
proof (cases "current_char st = CHR ''*'' \<or> current_char st = CHR ''/''")
  case False
  then show ?thesis by simp
next
  case True
  then have 1: "factor (Suc n) (advance st) = factor n (advance st)"
    using d by (intro f) (auto simp: Let_def split: outcome.splits)
  show ?thesis
    using d 1 True
    apply (subst (asm) term_loop.simps(2) [of n r st])
    apply (subst term_loop.simps(2) [of "Suc n" r st])
    apply (subst term_loop.simps(2) [of n r st])
    apply (auto simp del: eval_simps simp: Let_def l split: outcome.splits if_splits)
    done
qed

lemma more_fuel_term_p_step:
  assumes f: "\<And>s. factor n s \<noteq> OutOfFuel \<Longrightarrow> factor (Suc n) s = factor n s"
    and l: "\<And>r s. term_loop n r s \<noteq> OutOfFuel \<Longrightarrow> term_loop (Suc n) r s = term_loop n r s"
    and d: "term_p (Suc n) st \<noteq> OutOfFuel"
  shows "term_p (Suc (Suc n)) st = term_p (Suc n) st"
proof -
  have 1: "factor (Suc n) st = factor n st"
    using d by (intro f) (auto split: outcome.splits)
  have 2: "term_loop (Suc n) v st1 = term_loop n v st1" if "factor n st = Ok v st1" for v st1
    using d that by (intro l) auto
  show ?thesis
    apply (subst term_p.simps(2) [of "Suc n" st])
    apply (subst term_p.simps(2) [of n st])
    using 1 2
    apply (simp del: eval_simps split: outcome.splits)
    done
qed

lemma more_fuel_expr_loop_step:
  assumes t: "\<And>s. term_p n s \<noteq> OutOfFuel \<Longrightarrow> term_p (Suc n) s = term_p n s"
    and l: "\<And>r s. expr_loop n r s \<noteq> OutOfFuel \<Longrightarrow> expr_loop (Suc n) r s = expr_loop n r s"
    and d: "expr_loop (Suc n) r st \<noteq> OutOfFuel"
  shows "expr_loop (Suc (Suc n)) r st = expr_loop (Suc n) r st"
proof (cases "current_char st = CHR ''+'' \<or> current_char st = CHR ''-''")
  case False
  then show ?thesis by simp
next
  case True
  then have 1: "term_p (Suc n) (advance st) = term_p n (advance st)"
    using d by (intro t) (auto simp: Let_def split: outcome.splits)
  show ?thesis
    using d 1 True
    apply (subst (asm) expr_loop.simps(2) [of n r st])
    apply (subst expr_loop.simps(2) [of "Suc n" r st])
    apply (subst expr_loop.simps(2) [of n r st])
    apply (auto simp del: eval_simps simp: Let_def l split: outcome.splits if_splits)
    done
qed

lemma more_fuel_expr_step:
  assumes t: "\<And>s. term_p n s \<noteq> OutOfFuel \<Longrightarrow> term_p (Suc n) s = term_p n s"
    and l: "\<And>r s. expr_loop n r s \<noteq> OutOfFuel \<Longrightarrow> expr_loop (Suc n) r s = expr_loop n r s"
    and d: "expr (Suc n) st \<noteq> OutOfFuel"
  shows "expr (Suc (Suc n)) st = expr (Suc n) st"
proof -
  have 1: "term_p (Suc n) st = term_p n st"
    using d by (intro t) (auto split: outcome.splits)
  have 2: "expr_loop (Suc n) v st1 = expr_loop n v st1" if "term_p n st = Ok v st1" for v st1
    using d that by (intro l) auto
  show ?thesis
    apply (subst expr.simps(2) [of "Suc n" st])
    apply (subst expr.simps(2) [of n st])
    using 1 2
    apply (simp del: eval_simps split: outcome.splits)
    done
qed

lemma more_fuel_call_args_step:
  assumes e: "\<And>s. expr n s \<noteq> OutOfFuel \<Longrightarrow> expr (Suc n) s = expr n s"
    and l: "\<And>ps as s. call_args n ps as s \<noteq> OutOfFuel \<Longrightarrow>
              call_args (Suc n) ps as s = call_args n ps as s"
    and d: "call_args (Suc n) ps as st \<noteq> OutOfFuel"
  shows "call_args (Suc (Suc n)) ps as st = call_args (Suc n) ps as st"
proof (cases ps)
  case Nil
  then show ?thesis by simp
next
  case (Cons p ps')
  show ?thesis
  proof (cases "as = []")
    case True
    have 1: "expr (Suc n) st = expr n st"
      using d Cons True by (intro e) (auto split: outcome.splits)
    have 2: "call_args (Suc n) ps' [v] st1 = call_args n ps' [v] st1"
      if "expr n st = Ok v st1" for v st1
      using d Cons True that by (intro l) auto
    show ?thesis
      unfolding Cons True
      apply (subst call_args.simps(3) [of "Suc n" p ps' "[]" st])
      apply (subst call_args.simps(3) [of n p ps' "[]" st])
      using 1 2
      apply (simp del: eval_simps split: outcome.splits)
      done
  next
    case False
    show ?thesis
    proof (cases "current_char st = CHR '',''")
      case c: False
      with False Cons show ?thesis by simp
    next
      case c: True
      have 1: "expr (Suc n) (advance st) = expr n (advance st)"
        using d Cons False c by (intro e) (auto split: outcome.splits)
      have 2: "call_args (Suc n) ps' (as @ [v]) st1 = call_args n ps' (as @ [v]) st1"
        if "expr n (advance st) = Ok v st1" for v st1
        using d Cons False c that by (intro l) auto
      show ?thesis
        unfolding Cons
        apply (subst call_args.simps(3) [of "Suc n" p ps' as st])
        apply (subst call_args.simps(3) [of n p ps' as st])
        using 1 2 False c
        apply (simp del: eval_simps split: outcome.splits)
        done
    qed
  qed
qed

lemma more_fuel_call_function_step:
  assumes e: "\<And>s. expr n s \<noteq> OutOfFuel \<Longrightarrow> expr (Suc n) s = expr n s"
    and l: "\<And>ps as s. call_args n ps as s \<noteq> OutOfFuel \<Longrightarrow>
              call_args (Suc n) ps as s = call_args n ps as s"
    and d: "call_function (Suc n) name st \<noteq> OutOfFuel"
  shows "call_function (Suc (Suc n)) name st = call_function (Suc n) name st"
proof (cases "functions_tab st name")
  case None
  then show ?thesis by simp
next
  case (Some func)
  let ?st1 = "skip_whitespace st"
  show ?thesis
  proof (cases "current_char ?st1 = CHR ''(''")
    case False
    with Some show ?thesis by (simp add: Let_def)
  next
    case True
    have 1: "call_args (Suc n) (parameters func) [] (advance ?st1) =
             call_args n (parameters func) [] (advance ?st1)"
      using d Some True by (intro l) (auto simp: Let_def split: outcome.splits)
    have 2: "expr (Suc n) (enter_body func (bind_arguments func args (advance st2))) =
             expr n (enter_body func (bind_arguments func args (advance st2)))"
      if "call_args n (parameters func) [] (advance ?st1) = Ok args st2"
        "current_char st2 = CHR '')''" for args st2
      using d Some True that by (intro e) (auto simp: Let_def split: outcome.splits)
    show ?thesis
      apply (subst call_function.simps(2) [of "Suc n" name st])
      apply (subst call_function.simps(2) [of n name st])
      using 1 2 True Some
      apply (simp del: eval_simps add: Let_def split: outcome.splits)
      done
  qed
qed

lemma more_fuel_Suc:
  "(\<forall>st. factor n st \<noteq> OutOfFuel \<longrightarrow> factor (Suc n) st = factor n st) \<and>
   (\<forall>r st. term_loop n r st \<noteq> OutOfFuel \<longrightarrow> term_loop (Suc n) r st = term_loop n r st) \<and>
   (\<forall>st. term_p n st \<noteq> OutOfFuel \<longrightarrow> term_p (Suc n) st = term_p n st) \<and>
   (\<forall>r st. expr_loop n r st \<noteq> OutOfFuel \<longrightarrow> expr_loop (Suc n) r st = expr_loop n r st) \<and>
   (\<forall>st. expr n st \<noteq> OutOfFuel \<longrightarrow> expr (Suc n) st = expr n st) \<and>
   (\<forall>ps as st. call_args n ps as st \<noteq> OutOfFuel \<longrightarrow>
      call_args (Suc n) ps as st = call_args n ps as st) \<and>
   (\<forall>f st. call_function n f st \<noteq> OutOfFuel \<longrightarrow>
      call_function (Suc n) f st = call_function n f st)"
proof (induction n)
  case 0
  show ?case by simp
next
  case (Suc n)
  then show ?case
    by (intro conjI allI impI more_fuel_factor_step more_fuel_term_loop_step
        more_fuel_term_p_step more_fuel_expr_loop_step more_fuel_expr_step
        more_fuel_call_args_step more_fuel_call_function_step)
      blast+
qed

lemma more_fuel_expr: "expr n st \<noteq> OutOfFuel \<Longrightarrow> expr (n + k) st = expr n st"
proof (induction k)
  case 0
  show ?case by simp
next
  case (Suc k)
  then have "expr (n + k) st \<noteq> OutOfFuel" by simp
  then have "expr (Suc (n + k)) st = expr (n + k) st"
    using more_fuel_Suc [of "n + k"] by blast
  with Suc show ?case by simp
qed

lemma more_fuel_call_function:
  "call_function n f st \<noteq> OutOfFuel \<Longrightarrow> call_function (n + k) f st = call_function n f st"
proof (induction k)
  case 0
  show ?case by simp
next
  case (Suc k)
  then have "call_function (n + k) f st \<noteq> OutOfFuel" by simp
  then have "call_function (Suc (n + k)) f st = call_function (n + k) f st"
    using more_fuel_Suc [of "n + k"] by blast
  with Suc show ?case by simp
qed


lemma more_fuel_statement:
  assumes d: "statement n st0 \<noteq> OutOfFuel"
  shows "statement (Suc n) st0 = statement n st0"
proof (cases "isalpha (current_char (skip_whitespace st0))")
  case False
  then show ?thesis
    by (simp add: declarations_unreachable)
next
  case True
  let ?st = "skip_whitespace st0"
  obtain ident st1 where id: "identifier_p ?st = (ident, st1)"
    by (cases "identifier_p ?st")
  let ?st2 = "skip_whitespace st1"
  have e: "expr n s \<noteq> OutOfFuel \<Longrightarrow> expr (Suc n) s = expr n s" for s
    using more_fuel_Suc [of n] by blast
  have c: "call_function n f s \<noteq> OutOfFuel \<Longrightarrow> call_function (Suc n) f s = call_function n f s"
    for f s
    using more_fuel_Suc [of n] by blast
  have z: "current_char ?st \<noteq> CHR 0x00"
    using True by (auto simp: isalpha_def)
  have 1: "expr (Suc n) (advance ?st2) = expr n (advance ?st2)"
    if "current_char ?st2 = CHR ''='' \<or> current_char ?st2 = CHR ''[''"
    using d True z id that
    by (intro e) (auto simp: statement_def Let_def split: outcome.splits)
  have 2: "call_function (Suc n) ident ?st2 = call_function n ident ?st2"
    if "current_char ?st2 = CHR ''(''"
    using d True z id that
    by (intro c) (auto simp: statement_def Let_def split: outcome.splits)
  have 3: "expr (Suc n) (advance (skip_whitespace (advance st3))) =
           expr n (advance (skip_whitespace (advance st3)))"
    if "current_char ?st2 = CHR ''[''" "expr n (advance ?st2) = Ok index st3"
      "current_char st3 = CHR '']''"
      "current_char (skip_whitespace (advance st3)) = CHR ''=''" for index st3
    using d True z id that
    by (intro e) (auto simp: statement_def Let_def split: outcome.splits)
  show ?thesis
    apply (subst statement_def [of "Suc n"])
    apply (subst statement_def [of n])
    using 1 2 3 True z id
    apply (simp del: eval_simps add: Let_def split: outcome.splits)
    done
qed

lemma more_fuel_program:
  "program_p n st \<noteq> OutOfFuel \<Longrightarrow> program_p (Suc n) st = program_p n st"
proof (induction n arbitrary: st)
  case 0
  then show ?case by simp
next
  case (Suc n)
  show ?case
  proof (cases "current_char st \<noteq> CHR 0x00")
    case False
    then show ?thesis by simp
  next
    case True
    have 1: "statement (Suc n) st = statement n st"
      using Suc.prems True by (intro more_fuel_statement) (auto split: outcome.splits)
    show ?thesis
      using Suc.prems 1 True
      apply (subst (asm) program_p.simps(2) [of n st])
      apply (subst program_p.simps(2) [of "Suc n" st])
      apply (subst program_p.simps(2) [of n st])
      apply (auto simp del: program_p.simps simp: Let_def Suc.IH split: outcome.splits if_splits)
      done
  qed
qed

lemma more_fuel_interpret:
  "interpret_p n txt st \<noteq> OutOfFuel \<Longrightarrow> interpret_p (n + k) txt st = interpret_p n txt st"
proof (induction k)
  case 0
  show ?case by simp
next
  case (Suc k)
  then have "program_p (n + k) (set_input txt st) \<noteq> OutOfFuel"
    by (simp add: interpret_p_def)
  then have "program_p (Suc (n + k)) (set_input txt st) = program_p (n + k) (set_input txt st)"
    by (rule more_fuel_program)
  with Suc show ?case by (simp add: interpret_p_def)
qed

end
